theory Spec2Isabelle
  imports Main "HOL-Library.Log_Nat"
begin

section \<open>JavaScript numbers\<close>

text \<open>
  Every number of \<^verbatim>\<open>app/api/stock-predictions/route.ts\<close> is a JavaScript number: an
  IEEE 754 binary64 value. The model keeps the four kinds of value apart (not-a-number,
  the two infinities, a finite value) and holds a finite value as the rational it
  denotes. An arithmetic operation computes the exact rational result and rounds it to
  the nearest binary64 value, ties to the even significand, as the hardware does.
  The model has one zero: the sign of a zero is not represented. The only divisions of
  the source divide by an array length or by the literal 100 or 5, so the sign of a zero
  never decides a result there.
\<close>

datatype number = NaN | NegInf | Fin rat | PosInf

text \<open>
  The exponent of a positive fraction \<open>a / q\<close> (both integers positive): the \<open>l\<close> with
  \<open>2^l \<le> a / q < 2^(l+1)\<close>. The difference of the two bit lengths is \<open>l\<close> or \<open>l + 1\<close>.
\<close>

definition floor_log2 :: "int \<Rightarrow> int \<Rightarrow> int" where
  "floor_log2 a q =
     (let d = bitlen a - bitlen q
      in if 0 \<le> d then (if q * 2 ^ nat d \<le> a then d else d - 1)
         else (if q \<le> a * 2 ^ nat (- d) then d else d - 1))"

text \<open>The integer nearest to \<open>n / d\<close> (\<open>d\<close> positive), a tie to the even one.\<close>

definition round_half_even :: "int \<Rightarrow> int \<Rightarrow> int" where
  "round_half_even n d =
     (let f = n div d; r = 2 * (n mod d)
      in if r < d then f else if d < r then f + 1
         else if even f then f else f + 1)"

text \<open>\<open>m * 2^e\<close> as a rational.\<close>

definition scale2 :: "int \<Rightarrow> int \<Rightarrow> rat" where
  "scale2 m e = (if 0 \<le> e then of_int (m * 2 ^ nat e) else of_int m / of_int (2 ^ nat (- e)))"

text \<open>
  Rounding to binary64: 53 significant bits, the exponent of the last bit no lower than
  \<open>-1074\<close> (subnormal values), overflow to an infinity when the rounded significand
  reaches \<open>2^53 = 9007199254740992\<close> at the largest exponent, that is from \<open>2^1024\<close> on.
  With \<open>x = p / q\<close> and \<open>e\<close> the exponent of the last bit, the significand is \<open>x / 2^e\<close>
  rounded to an integer.
\<close>

definition rnd64 :: "rat \<Rightarrow> number" where
  "rnd64 x =
     (let (p, q) = quotient_of x
      in if p = 0 then Fin 0
         else let l = floor_log2 \<bar>p\<bar> q; e = max l (- 1022) - 52;
                  m = (if 0 \<le> e then round_half_even p (q * 2 ^ nat e)
                       else round_half_even (p * 2 ^ nat (- e)) q);
                  inf = (if 0 < p then PosInf else NegInf)
              in if 1023 < l then inf
                 else if e = 971 then (if \<bar>m\<bar> = 9007199254740992 then inf
                                       else Fin (scale2 m e))
                 else Fin (scale2 m e))"

text \<open>A decimal literal of the source denotes the binary64 value nearest to it.\<close>

definition lit :: "rat \<Rightarrow> number" where
  "lit q = rnd64 q"

fun jneg :: "number \<Rightarrow> number" where
  "jneg NaN = NaN"
| "jneg NegInf = PosInf"
| "jneg (Fin a) = Fin (- a)"
| "jneg PosInf = NegInf"

fun jadd :: "number \<Rightarrow> number \<Rightarrow> number" where
  "jadd (Fin a) (Fin b) = rnd64 (a + b)"
| "jadd NaN _ = NaN"
| "jadd _ NaN = NaN"
| "jadd PosInf NegInf = NaN"
| "jadd NegInf PosInf = NaN"
| "jadd PosInf _ = PosInf"
| "jadd _ PosInf = PosInf"
| "jadd NegInf _ = NegInf"
| "jadd _ NegInf = NegInf"

definition jsub :: "number \<Rightarrow> number \<Rightarrow> number" where
  "jsub x y = jadd x (jneg y)"

fun jmul :: "number \<Rightarrow> number \<Rightarrow> number" where
  "jmul (Fin a) (Fin b) = rnd64 (a * b)"
| "jmul NaN _ = NaN"
| "jmul _ NaN = NaN"
| "jmul (Fin a) y = (if a = 0 then NaN else if 0 < a then y else jneg y)"
| "jmul x (Fin b) = (if b = 0 then NaN else if 0 < b then x else jneg x)"
| "jmul x y = (if x = y then PosInf else NegInf)"

fun jdiv :: "number \<Rightarrow> number \<Rightarrow> number" where
  "jdiv (Fin a) (Fin b) =
     (if b = 0 then (if a = 0 then NaN else if 0 < a then PosInf else NegInf)
      else rnd64 (a / b))"
| "jdiv NaN _ = NaN"
| "jdiv _ NaN = NaN"
| "jdiv (Fin a) y = Fin 0"
| "jdiv x (Fin b) = (if 0 \<le> b then x else jneg x)"
| "jdiv x y = NaN"

text \<open>Comparisons: every comparison with \<open>NaN\<close> is false.\<close>

fun jlt :: "number \<Rightarrow> number \<Rightarrow> bool" where
  "jlt NaN _ = False"
| "jlt _ NaN = False"
| "jlt (Fin a) (Fin b) = (a < b)"
| "jlt NegInf NegInf = False"
| "jlt NegInf _ = True"
| "jlt _ NegInf = False"
| "jlt PosInf _ = False"
| "jlt _ PosInf = True"

definition jgt :: "number \<Rightarrow> number \<Rightarrow> bool" where
  "jgt x y = jlt y x"

fun jle :: "number \<Rightarrow> number \<Rightarrow> bool" where
  "jle NaN _ = False"
| "jle _ NaN = False"
| "jle x y = (\<not> jlt y x)"

definition jge :: "number \<Rightarrow> number \<Rightarrow> bool" where
  "jge x y = jle y x"

text \<open>\<^verbatim>\<open>Math.abs\<close>, \<^verbatim>\<open>Math.sign\<close>, \<^verbatim>\<open>Math.min\<close>, \<^verbatim>\<open>Math.max\<close> and
  \<^verbatim>\<open>Math.round\<close> (to the nearest integer, a tie towards \<open>+\<infinity>\<close>).\<close>

fun jabs :: "number \<Rightarrow> number" where
  "jabs NaN = NaN"
| "jabs NegInf = PosInf"
| "jabs (Fin a) = Fin \<bar>a\<bar>"
| "jabs PosInf = PosInf"

fun jsign :: "number \<Rightarrow> number" where
  "jsign NaN = NaN"
| "jsign NegInf = Fin (- 1)"
| "jsign (Fin a) = Fin (sgn a)"
| "jsign PosInf = Fin 1"

fun jmin :: "number \<Rightarrow> number \<Rightarrow> number" where
  "jmin NaN _ = NaN"
| "jmin _ NaN = NaN"
| "jmin x y = (if jlt y x then y else x)"

fun jmax :: "number \<Rightarrow> number \<Rightarrow> number" where
  "jmax NaN _ = NaN"
| "jmax _ NaN = NaN"
| "jmax x y = (if jlt x y then y else x)"

fun jround :: "number \<Rightarrow> number" where
  "jround (Fin a) = Fin (of_int \<lfloor>a + 1 / 2\<rfloor>)"
| "jround x = x"

text \<open>
  \<^verbatim>\<open>Math.sqrt\<close>, correctly rounded. With \<open>e\<close> the exponent of the last bit of the root,
  the integer part of \<open>sqrt x / 2^e\<close> is the integer square root of the integer part of
  \<open>x / 4^e = n / d\<close>, and the root lies below, at or above the middle \<open>r + 1/2\<close> as
  \<open>4 n\<close> compares to \<open>(2 r + 1)^2 d\<close>.
\<close>

function isqrt :: "int \<Rightarrow> int" where
  "isqrt n =
     (if n \<le> 0 then 0
      else let r = 2 * isqrt (n div 4) in if (r + 1) * (r + 1) \<le> n then r + 1 else r)"
  by pat_completeness auto
termination
  by (relation "measure nat") auto

declare isqrt.simps [simp del]

definition sqrt64 :: "rat \<Rightarrow> number" where
  "sqrt64 x =
     (let (p, q) = quotient_of x
      in if p = 0 then Fin 0
         else let e = max (floor_log2 p q div 2) (- 1022) - 52;
                  n = (if 0 \<le> e then p else p * 4 ^ nat (- e));
                  d = (if 0 \<le> e then q * 4 ^ nat e else q);
                  r = isqrt (n div d);
                  m = (if 4 * n < (2 * r + 1) * (2 * r + 1) * d then r
                       else if (2 * r + 1) * (2 * r + 1) * d < 4 * n then r + 1
                       else if even r then r else r + 1)
              in Fin (scale2 m e))"

fun jsqrt :: "number \<Rightarrow> number" where
  "jsqrt (Fin a) = (if a < 0 then NaN else sqrt64 a)"
| "jsqrt PosInf = PosInf"
| "jsqrt x = NaN"

text \<open>
  \<^verbatim>\<open>Math.pow(x, 2)\<close>, the only power the source takes, as the correctly rounded square.
\<close>

definition jsquare :: "number \<Rightarrow> number" where
  "jsquare x = jmul x x"

text \<open>Truthiness of a number, and \<^verbatim>\<open>x || 0\<close>: \<open>NaN\<close> and zero are falsy.\<close>

fun truthy :: "number \<Rightarrow> bool" where
  "truthy NaN = False"
| "truthy (Fin a) = (a \<noteq> 0)"
| "truthy _ = True"

definition orZero :: "number \<Rightarrow> number" where
  "orZero x = (if truthy x then x else Fin 0)"

section \<open>The decision fuser: \<^verbatim>\<open>makeSimplePrediction\<close>\<close>

record sentimentData =
  avgSentiment :: number
  sentimentVolatility :: number
  positiveNewsRatio :: number
  negativeNewsRatio :: number
  newsVolume :: nat

record techData =
  currentPrice :: number
  priceChange1d :: number
  volumeRatio :: number
  rsi :: number
  macd :: number
  bbPosition :: number
  sma20Ratio :: number
  sma50Ratio :: number
  volatility :: number

datatype action = BUY | HOLD | SELL

record prediction =
  action :: action
  confidence :: number
  reasoning :: "string list"

text \<open>
  The function keeps two local variables, \<^verbatim>\<open>score\<close> and \<^verbatim>\<open>reasoning\<close>, and updates
  them in five consecutive \<^verbatim>\<open>if\<close> statements. Each statement is a function on the
  pair of the two variables.
\<close>

type_synonym acc = "number \<times> string list"

definition sentimentFactor :: "sentimentData \<Rightarrow> acc \<Rightarrow> acc" where
  "sentimentFactor sentiment = (\<lambda>(score, reasoning).
     if jgt (avgSentiment sentiment) (lit (2 / 10))
     then (jadd score (Fin 2), reasoning @ [''Positive news sentiment''])
     else if jlt (avgSentiment sentiment) (jneg (lit (2 / 10)))
     then (jsub score (Fin 2), reasoning @ [''Negative news sentiment''])
     else (score, reasoning))"

definition rsiFactor :: "techData \<Rightarrow> acc \<Rightarrow> acc" where
  "rsiFactor technical = (\<lambda>(score, reasoning).
     if jlt (rsi technical) (Fin 30)
     then (jadd score (Fin 2), reasoning @ [''RSI indicates oversold condition''])
     else if jgt (rsi technical) (Fin 70)
     then (jsub score (Fin 2), reasoning @ [''RSI indicates overbought condition''])
     else (score, reasoning))"

definition macdFactor :: "techData \<Rightarrow> acc \<Rightarrow> acc" where
  "macdFactor technical = (\<lambda>(score, reasoning).
     if jgt (macd technical) (Fin 0)
     then (jadd score (Fin 1), reasoning @ [''MACD shows bullish momentum''])
     else (jsub score (Fin 1), reasoning @ [''MACD shows bearish momentum'']))"

definition momentumFactor :: "techData \<Rightarrow> acc \<Rightarrow> acc" where
  "momentumFactor technical = (\<lambda>(score, reasoning).
     if jgt (priceChange1d technical) (Fin 2)
     then (jadd score (Fin 1), reasoning @ [''Strong recent price momentum''])
     else if jlt (priceChange1d technical) (jneg (Fin 2))
     then (jsub score (Fin 1), reasoning @ [''Weak recent price momentum''])
     else (score, reasoning))"

definition volumeConfirmation :: "techData \<Rightarrow> acc \<Rightarrow> acc" where
  "volumeConfirmation technical = (\<lambda>(score, reasoning).
     if jgt (volumeRatio technical) (lit (15 / 10))
     then (jadd score (jmul (jsign score) (lit (5 / 10))),
           reasoning @ [''High volume confirms trend''])
     else (score, reasoning))"

text \<open>The two variables after the five statements (lines 143 to 184).\<close>

definition scoreFactors :: "sentimentData \<Rightarrow> techData \<Rightarrow> acc" where
  "scoreFactors sentiment technical =
     volumeConfirmation technical
       (momentumFactor technical
         (macdFactor technical
           (rsiFactor technical
             (sentimentFactor sentiment (Fin 0, [])))))"

text \<open>The decision and the returned object (lines 186 to 205).\<close>

definition determineAction :: "acc \<Rightarrow> prediction" where
  "determineAction = (\<lambda>(score, reasoning).
     let (act, conf) =
       (if jge score (Fin 3)
        then (BUY, jmin (lit (9 / 10))
                     (jadd (lit (6 / 10)) (jmul (jsub score (Fin 3)) (lit (1 / 10)))))
        else if jle score (jneg (Fin 3))
        then (SELL, jmin (lit (9 / 10))
                      (jadd (lit (6 / 10)) (jmul (jabs (jadd score (Fin 3))) (lit (1 / 10)))))
        else (HOLD, jadd (lit (5 / 10)) (jmul (jabs score) (lit (5 / 100)))))
     in \<lparr>action = act,
         confidence = jdiv (jround (jmul conf (Fin 100))) (Fin 100),
         reasoning = take 3 reasoning\<rparr>)"

definition makeSimplePrediction :: "sentimentData \<Rightarrow> techData \<Rightarrow> prediction" where
  "makeSimplePrediction sentiment technical =
     determineAction (scoreFactors sentiment technical)"

section \<open>The sentiment analyzer: \<^verbatim>\<open>analyzeSentiment\<close>\<close>

record newsItem =
  title :: string
  description :: string
  publishedAt :: string
  url :: string

text \<open>
  Strings are lists of characters. \<^verbatim>\<open>toLowerCase\<close> is modelled on the letters A to Z;
  \<^verbatim>\<open>includes\<close> is containment of a contiguous substring.
\<close>

definition toLowerCase :: "string \<Rightarrow> string" where
  "toLowerCase = map (\<lambda>c. let n = of_char c :: nat
                            in if 65 \<le> n \<and> n \<le> 90 then char_of (n + 32) else c)"

fun startsWith :: "string \<Rightarrow> string \<Rightarrow> bool" where
  "startsWith _ [] = True"
| "startsWith [] (w # ws) = False"
| "startsWith (c # cs) (w # ws) = (c = w \<and> startsWith cs ws)"

fun includes' :: "string \<Rightarrow> string \<Rightarrow> bool" where
  "includes' [] word = (word = [])"
| "includes' (c # cs) word = (startsWith (c # cs) word \<or> includes' cs word)"

definition positiveWords :: "string list" where
  "positiveWords = [''growth'', ''profit'', ''increase'', ''rise'', ''gain'', ''success'',
     ''strong'', ''beat'', ''exceed'', ''up'']"

definition negativeWords :: "string list" where
  "negativeWords = [''decline'', ''loss'', ''fall'', ''drop'', ''weak'', ''miss'',
     ''concern'', ''risk'', ''uncertainty'', ''down'']"

text \<open>The sentiment of one item: the callback of \<^verbatim>\<open>newsItems.map\<close> (lines 45 to 60).\<close>

definition itemSentiment :: "newsItem \<Rightarrow> number" where
  "itemSentiment item =
     (let text = toLowerCase (title item @ '' '' @ description item);
          score = foldl (\<lambda>score word. if includes' text word then jadd score (Fin 1)
                                         else score) (Fin 0) positiveWords;
          score = foldl (\<lambda>score word. if includes' text word then jsub score (Fin 1)
                                         else score) score negativeWords
      in jmax (Fin (- 1)) (jmin (Fin 1) (jdiv score (Fin 5))))"

text \<open>The length of an array as a number, and \<^verbatim>\<open>reduce((a, b) => a + b, 0)\<close>.\<close>

definition len :: "'a list \<Rightarrow> number" where
  "len xs = Fin (of_nat (length xs))"

definition reduceSum :: "number list \<Rightarrow> number" where
  "reduceSum xs = foldl jadd (Fin 0) xs"

definition calculateStandardDeviation :: "number list \<Rightarrow> number" where
  "calculateStandardDeviation values =
     (let avg = jdiv (reduceSum values) (len values);
          squareDiffs = map (\<lambda>value. jsquare (jsub value avg)) values;
          avgSquareDiff = jdiv (reduceSum squareDiffs) (len squareDiffs)
      in jsqrt avgSquareDiff)"

definition analyzeSentiment :: "newsItem list \<Rightarrow> sentimentData" where
  "analyzeSentiment newsItems =
     (let sentiments = map itemSentiment newsItems
      in \<lparr>avgSentiment = orZero (jdiv (reduceSum sentiments) (len sentiments)),
          sentimentVolatility = calculateStandardDeviation sentiments,
          positiveNewsRatio =
            orZero (jdiv (len (filter (\<lambda>s. jgt s (lit (1 / 10))) sentiments))
                         (len sentiments)),
          negativeNewsRatio =
            orZero (jdiv (len (filter (\<lambda>s. jlt s (jneg (lit (1 / 10)))) sentiments))
                         (len sentiments)),
          newsVolume = length newsItems\<rparr>)"

section \<open>The news source, the technical data and one prediction\<close>

text \<open>
  What the service reads from outside is a record passed through every function: the
  Guardian key of the environment, the Guardian API (the result of the \<open>n\<close>-th request
  made, for a lookback of \<open>h\<close> hours), the successive results of \<^verbatim>\<open>Math.random\<close>, and
  the clock: the time value \<^verbatim>\<open>Date.now()\<close> returns, in milliseconds since 1970, and the
  text \<^verbatim>\<open>new Date().toISOString()\<close> returns. The record also logs the lookback of every
  request made, oldest first, and counts the random numbers drawn. A function that may
  throw returns the message of the error on the left of a sum. The messages written with
  \<^verbatim>\<open>console.error\<close> are not modelled.
\<close>

record article =
  webTitle :: string
  trailText :: "string option"
  webPublicationDate :: string
  webUrl :: string

datatype httpResult =
    NetworkError string
  | HttpError nat
  | BadBody string
  | Results "article list option"

record world =
  guardianKey :: "string option"
  guardian :: "nat \<Rightarrow> number \<Rightarrow> httpResult"
  requests :: "number list"
  random :: "nat \<Rightarrow> number"
  randomCalls :: nat
  now :: nat
  clock :: string

fun showNat :: "nat \<Rightarrow> string" where
  "showNat n =
     (if n < 10 then [char_of (48 + n)]
      else showNat (n div 10) @ [char_of (48 + n mod 10)])"

declare showNat.simps [simp del]

definition toNewsItem :: "article \<Rightarrow> newsItem" where
  "toNewsItem a =
     \<lparr>title = webTitle a,
      description = (case trailText a of None \<Rightarrow> [] | Some t \<Rightarrow> t),
      publishedAt = webPublicationDate a,
      url = webUrl a\<rparr>"

text \<open>
  \<^verbatim>\<open>fetch\<close> rejecting is \<open>NetworkError\<close>, a response that is not \<^verbatim>\<open>ok\<close> is
  \<open>HttpError\<close> with its status, \<^verbatim>\<open>res.json()\<close> rejecting is \<open>BadBody\<close>, and
  \<open>Results\<close> holds \<^verbatim>\<open>data?.response?.results\<close>, absent as \<open>None\<close>.
\<close>

text \<open>
  A time value is a whole number of milliseconds of magnitude at most \<open>8.64 * 10^15\<close>; this
  is the largest \<^verbatim>\<open>Date.now()\<close> returns, and a larger \<open>now\<close> stands for it. A date made
  from any other number is invalid, and \<^verbatim>\<open>toISOString\<close> throws a \<^verbatim>\<open>RangeError\<close> on it.
\<close>

definition dateNow :: "world \<Rightarrow> number" where
  "dateNow w = Fin (of_nat (min (now w) 8640000000000000))"

fun validTime :: "number \<Rightarrow> bool" where
  "validTime (Fin a) = (\<bar>a\<bar> \<le> 8640000000000000)"
| "validTime _ = False"

text \<open>
  \<^verbatim>\<open>fetchGuardianNews\<close>: the key, then the from-date of the URL
  (\<^verbatim>\<open>Date.now() - hours * 60 * 60 * 1000\<close>, which must be a valid date), then the request.
\<close>

definition fetchGuardianNews :: "number \<Rightarrow> world \<Rightarrow> (string + newsItem list) \<times> world" where
  "fetchGuardianNews hours w =
     (if guardianKey w = None \<or> guardianKey w = Some []
      then (Inl ''Missing Guardian API key'', w)
      else if \<not> validTime (jsub (dateNow w)
                  (jmul (jmul (jmul hours (Fin 60)) (Fin 60)) (Fin 1000)))
      then (Inl ''Invalid time value'', w)
      else let res = guardian w (length (requests w)) hours;
               w' = w\<lparr>requests := requests w @ [hours]\<rparr>
           in case res of
                NetworkError msg \<Rightarrow> (Inl msg, w')
              | HttpError st \<Rightarrow> (Inl (''Guardian API error: '' @ showNat st), w')
              | BadBody msg \<Rightarrow> (Inl msg, w')
              | Results r \<Rightarrow>
                  (Inr (map toNewsItem (case r of None \<Rightarrow> [] | Some as \<Rightarrow> as)), w'))"

text \<open>The mock technical data: nine random numbers, drawn in the order of the fields.\<close>

definition generateMockTechnicalData :: "string \<Rightarrow> world \<Rightarrow> techData \<times> world" where
  "generateMockTechnicalData symbol w =
     (let r = (\<lambda>k. random w (randomCalls w + k));
          basePrice = jadd (jmul (r 0) (Fin 200)) (Fin 50)
      in (\<lparr>currentPrice = basePrice,
           priceChange1d = jmul (jsub (r 1) (lit (5 / 10))) (Fin 10),
           volumeRatio = jadd (jmul (r 2) (Fin 2)) (lit (5 / 10)),
           rsi = jmul (r 3) (Fin 100),
           macd = jmul (jsub (r 4) (lit (5 / 10))) (Fin 2),
           bbPosition = r 5,
           sma20Ratio = jadd (jmul (r 6) (lit (2 / 10))) (lit (9 / 10)),
           sma50Ratio = jadd (jmul (r 7) (lit (2 / 10))) (lit (9 / 10)),
           volatility = jadd (jmul (r 8) (Fin 50)) (Fin 10)\<rparr>,
          w\<lparr>randomCalls := randomCalls w + 9\<rparr>))"

text \<open>
  \<^verbatim>\<open>getTechnicalIndicators\<close> returns \<^verbatim>\<open>null\<close> when the generator throws; the generator
  has no statement that throws, so the result is always there.
\<close>

definition getTechnicalIndicators :: "string \<Rightarrow> world \<Rightarrow> techData option \<times> world" where
  "getTechnicalIndicators symbol w =
     (let (mockData, w') = generateMockTechnicalData symbol w in (Some mockData, w'))"

record technicalIndicators =
  rsi' :: number
  macd' :: number
  volatility' :: number
  priceChange1d' :: number

record stockPrediction =
  symbol :: string
  prediction :: action
  confidence' :: number
  reasoning' :: "string list"
  currentPrice' :: number
  technicalIndicators :: technicalIndicators
  sentimentAnalysis :: sentimentData
  timestamp :: string

text \<open>
  \<^verbatim>\<open>predictStock\<close>: its \<^verbatim>\<open>catch\<close> logs the error and throws it again, so an error of
  the news fetch leaves the function as it came.
\<close>

definition predictStock :: "string \<Rightarrow> world \<Rightarrow> (string + stockPrediction) \<times> world" where
  "predictStock symb w =
     (let (news, w1) = fetchGuardianNews (Fin 24) w
      in case news of
           Inl err \<Rightarrow> (Inl err, w1)
         | Inr items \<Rightarrow>
             let sentimentData = analyzeSentiment items;
                 (techData, w2) = getTechnicalIndicators symb w1
             in case techData of
                  None \<Rightarrow> (Inl (''Could not fetch technical data for '' @ symb), w2)
                | Some td \<Rightarrow>
                    let p = makeSimplePrediction sentimentData td
                    in (Inr \<lparr>symbol = symb,
                             prediction = action p,
                             confidence' = confidence p,
                             reasoning' = reasoning p,
                             currentPrice' = currentPrice td,
                             technicalIndicators =
                               \<lparr>rsi' = rsi td, macd' = macd td,
                                volatility' = volatility td,
                                priceChange1d' = priceChange1d td\<rparr>,
                             sentimentAnalysis = sentimentData,
                             timestamp = clock w2\<rparr>, w2))"

section \<open>The portfolio: \<^verbatim>\<open>predictPortfolio\<close> and the \<^verbatim>\<open>GET\<close> handler\<close>

text \<open>An entry of the output: a prediction, or the marker \<^verbatim>\<open>{symbol, error}\<close>.\<close>

datatype entry = Predicted stockPrediction | Failed string string

fun predictPortfolio :: "string list \<Rightarrow> world \<Rightarrow> entry list \<times> world" where
  "predictPortfolio [] w = ([], w)"
| "predictPortfolio (symb # symbols) w =
     (let (r, w1) = predictStock symb w;
          e = (case r of
                 Inr p \<Rightarrow> Predicted p
               | Inl msg \<Rightarrow> Failed symb (''Failed to predict: '' @ msg));
          (es, w2) = predictPortfolio symbols w1
      in (e # es, w2))"

text \<open>\<^verbatim>\<open>String.prototype.split\<close> on a one-character separator.\<close>

fun split :: "char \<Rightarrow> string \<Rightarrow> string list" where
  "split sep [] = [[]]"
| "split sep (c # cs) =
     (if c = sep then [] # split sep cs
      else (case split sep cs of [] \<Rightarrow> [[c]] | x # xs \<Rightarrow> (c # x) # xs))"

text \<open>
  \<^verbatim>\<open>parseInt(s, 10)\<close>: leading white space, an optional sign, then the decimal digits;
  \<open>NaN\<close> without a digit. The value is the integer the digits write, rounded to binary64.
  A character of the model is a code unit below 256; the white space of JavaScript among
  these is tab, line feed, vertical tab, form feed, carriage return, space and the
  no-break space (160).
\<close>

definition isSpace :: "char \<Rightarrow> bool" where
  "isSpace c = (of_char c \<in> {9, 10, 11, 12, 13, 32, 160 :: nat})"

definition isDigit :: "char \<Rightarrow> bool" where
  "isDigit c = (48 \<le> (of_char c :: nat) \<and> (of_char c :: nat) \<le> 57)"

definition parseInt10 :: "string \<Rightarrow> number" where
  "parseInt10 s =
     (let s1 = dropWhile isSpace s;
          neg = (case s1 of [] \<Rightarrow> False | c # _ \<Rightarrow> c = CHR ''-'');
          s2 = (case s1 of [] \<Rightarrow> [] | c # cs \<Rightarrow> if c = CHR ''-'' \<or> c = CHR ''+'' then cs else s1);
          ds = takeWhile isDigit s2;
          n = foldl (\<lambda>a d. 10 * a + (of_char d - 48)) (0 :: int) ds
      in if ds = [] then NaN else rnd64 (of_int (if neg then - n else n)))"

record request =
  symbolsParam :: "string option"
  hoursParam :: "string option"

record summary =
  totalSymbols :: nat
  buySignals :: nat
  sellSignals :: nat
  holdSignals :: nat
  avgConfidence :: number
  summaryTimestamp :: string

record responseBody =
  predictions :: "entry list"
  summary :: summary
  disclaimer :: string

record reply =
  status :: nat
  body :: responseBody

text \<open>The tests of the summary's filters: \<^verbatim>\<open>!p.error && p.prediction === a\<close> and
  \<^verbatim>\<open>!p.error && p.confidence\<close>. The error of a marker is never the empty string.\<close>

fun signals :: "action \<Rightarrow> entry \<Rightarrow> bool" where
  "signals a (Predicted p) = (prediction p = a)"
| "signals a (Failed symb err) = False"

fun confident :: "entry \<Rightarrow> bool" where
  "confident (Predicted p) = truthy (confidence' p)"
| "confident (Failed symb err) = False"

fun confidenceOrZero :: "entry \<Rightarrow> number" where
  "confidenceOrZero (Predicted p) = orZero (confidence' p)"
| "confidenceOrZero (Failed symb err) = Fin 0"

text \<open>The symbols and the lookback the handler reads from the query string.\<close>

definition requestedSymbols :: "request \<Rightarrow> string list" where
  "requestedSymbols req =
     (case symbolsParam req of
        None \<Rightarrow> [''AAPL'', ''GOOGL'', ''MSFT'']
      | Some s \<Rightarrow> split CHR '','' s)"

definition requestedHours :: "request \<Rightarrow> number" where
  "requestedHours req =
     parseInt10 (case hoursParam req of
                   None \<Rightarrow> ''24''
                 | Some h \<Rightarrow> if h = [] then ''24'' else h)"

text \<open>
  The handler. Nothing in its \<^verbatim>\<open>try\<close> block throws (\<^verbatim>\<open>predictPortfolio\<close> catches
  every error of a prediction), so the reply is the one of the block, with the status 200
  of \<^verbatim>\<open>NextResponse.json\<close>. The constant \<^verbatim>\<open>hours\<close> is computed and not used.
\<close>

definition GET :: "request \<Rightarrow> world \<Rightarrow> reply \<times> world" where
  "GET req w =
     (let symbols = requestedSymbols req;
          hours = requestedHours req;
          (preds, w') = predictPortfolio symbols w;
          sm = \<lparr>totalSymbols = length symbols,
                buySignals = length (filter (signals BUY) preds),
                sellSignals = length (filter (signals SELL) preds),
                holdSignals = length (filter (signals HOLD) preds),
                avgConfidence =
                  orZero (jdiv (foldl (\<lambda>acc p. jadd acc (confidenceOrZero p)) (Fin 0)
                                  (filter confident preds))
                               (len (filter confident preds))),
                summaryTimestamp = clock w'\<rparr>
      in (\<lparr>status = 200,
           body = \<lparr>predictions = preds, summary = sm,
                   disclaimer = ''This is for educational purposes only. Not financial advice. Past performance does not guarantee future results.''\<rparr>\<rparr>,
          w'))"

section \<open>The decision fuser as the specification words it\<close>

text \<open>
  Section 4.3 of the specification, in exact rational arithmetic. The comparisons are
  those of the specification, on the binary64 inputs and with the decimal thresholds
  read as binary64 literals; the arithmetic on the score is exact, not rounded.
  Steps 2 to 5 each contribute a number of points, step 6 amplifies their sum.
\<close>

definition sentimentPoints :: "sentimentData \<Rightarrow> int" where
  "sentimentPoints sentiment =
     (if jgt (avgSentiment sentiment) (lit (2 / 10)) then 2
      else if jlt (avgSentiment sentiment) (jneg (lit (2 / 10))) then - 2 else 0)"

definition rsiPoints :: "techData \<Rightarrow> int" where
  "rsiPoints technical =
     (if jlt (rsi technical) (Fin 30) then 2
      else if jgt (rsi technical) (Fin 70) then - 2 else 0)"

definition macdPoints :: "techData \<Rightarrow> int" where
  "macdPoints technical = (if jgt (macd technical) (Fin 0) then 1 else - 1)"

definition momentumPoints :: "techData \<Rightarrow> int" where
  "momentumPoints technical =
     (if jgt (priceChange1d technical) (Fin 2) then 1
      else if jlt (priceChange1d technical) (jneg (Fin 2)) then - 1 else 0)"

definition spec_score :: "sentimentData \<Rightarrow> techData \<Rightarrow> rat" where
  "spec_score sentiment technical =
     (let score = of_int (sentimentPoints sentiment + rsiPoints technical
                          + macdPoints technical + momentumPoints technical)
      in if jgt (volumeRatio technical) (lit (15 / 10)) then score + sgn score * (5 / 10)
         else score)"

definition spec_action :: "rat \<Rightarrow> action" where
  "spec_action score = (if 3 \<le> score then BUY else if score \<le> - 3 then SELL else HOLD)"

text \<open>The confidence of step 7, before the rounding of step 8.\<close>

definition spec_confidence :: "rat \<Rightarrow> rat" where
  "spec_confidence score =
     (if 3 \<le> score then min (9 / 10) (6 / 10 + (score - 3) * (1 / 10))
      else if score \<le> - 3 then min (9 / 10) (6 / 10 + \<bar>score + 3\<bar> * (1 / 10))
      else 5 / 10 + \<bar>score\<bar> * (5 / 100))"

text \<open>Step 8: a number rounded to two decimal places, as its hundredths, a tie rounded up.\<close>

definition spec_round2 :: "rat \<Rightarrow> int" where
  "spec_round2 x = \<lfloor>x * 100 + 1 / 2\<rfloor>"

text \<open>The reasons of steps 2 to 6, each step appending at most one.\<close>

definition sentimentReason :: "sentimentData \<Rightarrow> string list" where
  "sentimentReason sentiment =
     (if jgt (avgSentiment sentiment) (lit (2 / 10)) then [''Positive news sentiment'']
      else if jlt (avgSentiment sentiment) (jneg (lit (2 / 10)))
      then [''Negative news sentiment''] else [])"

definition rsiReason :: "techData \<Rightarrow> string list" where
  "rsiReason technical =
     (if jlt (rsi technical) (Fin 30) then [''RSI indicates oversold condition'']
      else if jgt (rsi technical) (Fin 70) then [''RSI indicates overbought condition'']
      else [])"

definition macdReason :: "techData \<Rightarrow> string list" where
  "macdReason technical =
     (if jgt (macd technical) (Fin 0) then [''MACD shows bullish momentum'']
      else [''MACD shows bearish momentum''])"

definition momentumReason :: "techData \<Rightarrow> string list" where
  "momentumReason technical =
     (if jgt (priceChange1d technical) (Fin 2) then [''Strong recent price momentum'']
      else if jlt (priceChange1d technical) (jneg (Fin 2))
      then [''Weak recent price momentum''] else [])"

definition volumeReason :: "techData \<Rightarrow> string list" where
  "volumeReason technical =
     (if jgt (volumeRatio technical) (lit (15 / 10)) then [''High volume confirms trend'']
      else [])"

definition spec_reasons :: "sentimentData \<Rightarrow> techData \<Rightarrow> string list" where
  "spec_reasons sentiment technical =
     sentimentReason sentiment @ rsiReason technical @ macdReason technical
     @ momentumReason technical @ volumeReason technical"

text \<open>
  The hundredths the code returns as the confidence of a score that is a multiple of one
  half between \<open>-13/2\<close> and \<open>13/2\<close>. For a score of magnitude 3 or more the binary64
  computation lands on the decimal the exact formula gives. Below 3 the exact value
  \<open>0.5 + |score| * 0.05\<close> is a tie between two hundredths at the scores \<open>1/2\<close>, \<open>3/2\<close>
  and \<open>5/2\<close>; the binary64 computation resolves it upwards at \<open>1/2\<close> and \<open>5/2\<close> and
  downwards at \<open>3/2\<close> (\<^verbatim>\<open>0.575 * 100\<close> is \<^verbatim>\<open>57.49999999999999\<close>).
\<close>

definition cents :: "rat \<Rightarrow> int" where
  "cents score =
     (if 3 \<le> \<bar>score\<bar> then min 90 (60 + \<lfloor>(\<bar>score\<bar> - 3) * 10\<rfloor>)
      else [50, 53, 55, 57, 60, 63] ! nat \<lfloor>2 * \<bar>score\<bar>\<rfloor>)"

definition decided :: "action \<Rightarrow> int \<Rightarrow> prediction" where
  "decided a k = \<lparr>action = a, confidence = lit (of_int k / 100), reasoning = []\<rparr>"

text \<open>Sample inputs: a sentiment summary without news and a neutral snapshot.\<close>

definition noNews :: sentimentData where
  "noNews = \<lparr>avgSentiment = Fin 0, sentimentVolatility = NaN, positiveNewsRatio = Fin 0,
     negativeNewsRatio = Fin 0, newsVolume = 0\<rparr>"

definition flatMarket :: techData where
  "flatMarket = \<lparr>currentPrice = Fin 100, priceChange1d = Fin 0, volumeRatio = Fin 1,
     rsi = Fin 50, macd = Fin 0, bbPosition = lit (5 / 10), sma20Ratio = Fin 1,
     sma50Ratio = Fin 1, volatility = Fin 20\<rparr>"

section \<open>Observations on the portfolio\<close>

text \<open>
  Whether the environment holds a usable Guardian key, and what the \<open>n\<close>-th news request
  of a run gives: the message of the error \<^verbatim>\<open>fetchGuardianNews(24)\<close> throws, or the news
  items it returns.
\<close>

definition hasKey :: "world \<Rightarrow> bool" where
  "hasKey w = (guardianKey w \<noteq> None \<and> guardianKey w \<noteq> Some [])"

definition newsOutcome :: "world \<Rightarrow> nat \<Rightarrow> string + newsItem list" where
  "newsOutcome w n =
     (if hasKey w
      then (case guardian w n (Fin 24) of
              NetworkError msg \<Rightarrow> Inl msg
            | HttpError st \<Rightarrow> Inl (''Guardian API error: '' @ showNat st)
            | BadBody msg \<Rightarrow> Inl msg
            | Results r \<Rightarrow> Inr (map toNewsItem (case r of None \<Rightarrow> [] | Some as \<Rightarrow> as)))
      else Inl ''Missing Guardian API key'')"

text \<open>What an entry of the output shows: its symbol, its error, its sentiment summary.\<close>

fun entrySymbol :: "entry \<Rightarrow> string" where
  "entrySymbol (Predicted p) = symbol p"
| "entrySymbol (Failed symb err) = symb"

fun entryError :: "entry \<Rightarrow> string option" where
  "entryError (Predicted p) = None"
| "entryError (Failed symb err) = Some err"

fun entrySentiment :: "entry \<Rightarrow> sentimentData option" where
  "entrySentiment (Predicted p) = Some (sentimentAnalysis p)"
| "entrySentiment (Failed symb err) = None"

text \<open>The successful predictions among the entries, in order.\<close>

fun successes :: "entry list \<Rightarrow> stockPrediction list" where
  "successes [] = []"
| "successes (Predicted p # es) = p # successes es"
| "successes (Failed symb err # es) = successes es"

text \<open>
  What a news outcome makes of an entry: the error of its marker, or the sentiment summary
  of its prediction.
\<close>

fun newsFailure :: "string + newsItem list \<Rightarrow> string option" where
  "newsFailure (Inl msg) = Some (''Failed to predict: '' @ msg)"
| "newsFailure (Inr items) = None"

fun newsSentiment :: "string + newsItem list \<Rightarrow> sentimentData option" where
  "newsSentiment (Inl msg) = None"
| "newsSentiment (Inr items) = Some (analyzeSentiment items)"

text \<open>Two states of the outside world with the same key, API, random numbers and clock.\<close>

definition sameSources :: "world \<Rightarrow> world \<Rightarrow> bool" where
  "sameSources w w' =
     (guardianKey w' = guardianKey w \<and> guardian w' = guardian w \<and> random w' = random w
      \<and> clock w' = clock w)"

text \<open>A prediction whose action, confidence and reasoning come out of the fuser.\<close>

definition fused :: "stockPrediction \<Rightarrow> bool" where
  "fused sp = (\<exists>s t. prediction sp = action (makeSimplePrediction s t) \<and>
                 confidence' sp = confidence (makeSimplePrediction s t) \<and>
                 reasoning' sp = reasoning (makeSimplePrediction s t))"

text \<open>
  Sample worlds and requests. In \<open>calmWorld\<close> the first news request returns one article
  and every later one none; \<open>noKeyWorld\<close> has no Guardian key; in \<open>outageWorld\<close> the
  second news request is answered with status 503.
\<close>

definition calmWorld :: world where
  "calmWorld =
     \<lparr>guardianKey = Some ''test-key'',
      guardian = (\<lambda>n h. Results (Some (if n = 0
                    then [\<lparr>webTitle = ''Profit up'', trailText = None,
                            webPublicationDate = ''2024-01-01T00:00:00Z'',
                            webUrl = ''https://example.org/1''\<rparr>]
                    else []))),
      requests = [],
      random = (\<lambda>k. lit (5 / 10)),
      randomCalls = 0,
      now = 1704153600000,
      clock = ''2024-01-02T00:00:00.000Z''\<rparr>"

definition noKeyWorld :: world where
  "noKeyWorld = calmWorld\<lparr>guardianKey := None\<rparr>"

definition outageWorld :: world where
  "outageWorld = calmWorld\<lparr>guardian := (\<lambda>n h. if n = 1 then HttpError 503
                                                else Results (Some []))\<rparr>"

definition twoSymbols48 :: request where
  "twoSymbols48 = \<lparr>symbolsParam = Some ''AAPL,MSFT'', hoursParam = Some ''48''\<rparr>"

definition threeSymbols :: request where
  "threeSymbols = \<lparr>symbolsParam = Some ''AAPL,TSLA,MSFT'', hoursParam = None\<rparr>"

definition onlyApple :: request where
  "onlyApple = \<lparr>symbolsParam = Some ''AAPL'', hoursParam = None\<rparr>"

definition malformed :: request where
  "malformed = \<lparr>symbolsParam = None, hoursParam = Some ''-5''\<rparr>"

section \<open>Evaluation tables\<close>

text \<open>
  The binary64 computations of the fuser take finitely many values. They are evaluated
  once, by rewriting with the definitions.
\<close>

lemma lit_values:
  "lit (1 / 5) = Fin (3602879701896397 / 18014398509481984)"
  "lit (3 / 10) = Fin (5404319552844595 / 18014398509481984)"
  "lit (3 / 2) = Fin (3 / 2)"
  "lit (1 / 2) = Fin (1 / 2)"
  "lit (9 / 10) = Fin (8106479329266893 / 9007199254740992)"
  by code_simp+

text \<open>
  Two well-known binary64 facts the model reproduces: \<^verbatim>\<open>0.1 + 0.2\<close> is not \<^verbatim>\<open>0.3\<close> but
  the next number up, and \<^verbatim>\<open>(0.5 + 1.5 * 0.05) * 100\<close> is below 57.5, so that
  \<^verbatim>\<open>Math.round\<close> takes it to 57.
\<close>

lemma binary64_examples:
  "jadd (lit (1 / 10)) (lit (2 / 10)) = Fin (1351079888211149 / 4503599627370496)"
  "jmul (jadd (lit (5 / 10)) (jmul (Fin (3 / 2)) (lit (5 / 100)))) (Fin 100) =
     Fin (8092405580431359 / 140737488355328)"
  "jround (Fin (8092405580431359 / 140737488355328)) = Fin 57"
  by code_simp+

lemma rnd64_halves:
  "rnd64 (- (13 / 2)) = Fin (- (13 / 2))" "rnd64 (- 6) = Fin (- 6)"
  "rnd64 (- (11 / 2)) = Fin (- (11 / 2))" "rnd64 (- 5) = Fin (- 5)"
  "rnd64 (- (9 / 2)) = Fin (- (9 / 2))" "rnd64 (- 4) = Fin (- 4)"
  "rnd64 (- (7 / 2)) = Fin (- (7 / 2))" "rnd64 (- 3) = Fin (- 3)"
  "rnd64 (- (5 / 2)) = Fin (- (5 / 2))" "rnd64 (- 2) = Fin (- 2)"
  "rnd64 (- (3 / 2)) = Fin (- (3 / 2))" "rnd64 (- 1) = Fin (- 1)"
  "rnd64 (- (1 / 2)) = Fin (- (1 / 2))" "rnd64 0 = Fin 0"
  "rnd64 (1 / 2) = Fin (1 / 2)" "rnd64 1 = Fin 1"
  "rnd64 (3 / 2) = Fin (3 / 2)" "rnd64 2 = Fin 2"
  "rnd64 (5 / 2) = Fin (5 / 2)" "rnd64 3 = Fin 3"
  "rnd64 (7 / 2) = Fin (7 / 2)" "rnd64 4 = Fin 4"
  "rnd64 (9 / 2) = Fin (9 / 2)" "rnd64 5 = Fin 5"
  "rnd64 (11 / 2) = Fin (11 / 2)" "rnd64 6 = Fin 6"
  "rnd64 (13 / 2) = Fin (13 / 2)"
  by code_simp+

lemma sell_table:
  "determineAction (Fin (- (13 / 2)), []) = decided SELL 90"
  "determineAction (Fin (- 6), []) = decided SELL 90"
  "determineAction (Fin (- (11 / 2)), []) = decided SELL 85"
  "determineAction (Fin (- 5), []) = decided SELL 80"
  "determineAction (Fin (- (9 / 2)), []) = decided SELL 75"
  "determineAction (Fin (- 4), []) = decided SELL 70"
  "determineAction (Fin (- (7 / 2)), []) = decided SELL 65"
  "determineAction (Fin (- 3), []) = decided SELL 60"
  by code_simp+

lemma hold_table:
  "determineAction (Fin (- (5 / 2)), []) = decided HOLD 63"
  "determineAction (Fin (- 2), []) = decided HOLD 60"
  "determineAction (Fin (- (3 / 2)), []) = decided HOLD 57"
  "determineAction (Fin (- 1), []) = decided HOLD 55"
  "determineAction (Fin (- (1 / 2)), []) = decided HOLD 53"
  "determineAction (Fin 0, []) = decided HOLD 50"
  "determineAction (Fin (1 / 2), []) = decided HOLD 53"
  "determineAction (Fin 1, []) = decided HOLD 55"
  "determineAction (Fin (3 / 2), []) = decided HOLD 57"
  "determineAction (Fin 2, []) = decided HOLD 60"
  "determineAction (Fin (5 / 2), []) = decided HOLD 63"
  by code_simp+

lemma buy_table:
  "determineAction (Fin 3, []) = decided BUY 60"
  "determineAction (Fin (7 / 2), []) = decided BUY 65"
  "determineAction (Fin 4, []) = decided BUY 70"
  "determineAction (Fin (9 / 2), []) = decided BUY 75"
  "determineAction (Fin 5, []) = decided BUY 80"
  "determineAction (Fin (11 / 2), []) = decided BUY 85"
  "determineAction (Fin 6, []) = decided BUY 90"
  "determineAction (Fin (13 / 2), []) = decided BUY 90"
  by code_simp+

lemma day_in_milliseconds:
  "jmul (jmul (jmul (Fin 24) (Fin 60)) (Fin 60)) (Fin 1000) = Fin 86400000"
  by code_simp

lemma hundredths_apart:
  "lit (57 / 100) = Fin (5134103575202365 / 9007199254740992)"
  "lit (29 / 50) = Fin (5224175567749775 / 9007199254740992)"
  by code_simp+

lemma cents_table:
  "\<forall>k \<in> set [50, 53, 55, 57, 60, 63, 65, 70, 75, 80, 85, 90].
     jle (lit (5 / 10)) (lit (of_int k / 100)) \<and> jle (lit (of_int k / 100)) (lit (9 / 10))
     \<and> truthy (lit (of_int k / 100))"
  by code_simp

section \<open>The fuser computes what the specification words\<close>

lemmas factor_defs = scoreFactors_def sentimentFactor_def rsiFactor_def macdFactor_def
  momentumFactor_def volumeConfirmation_def

lemmas points_defs = sentimentPoints_def rsiPoints_def macdPoints_def momentumPoints_def

lemmas reason_defs = spec_reasons_def sentimentReason_def rsiReason_def macdReason_def
  momentumReason_def volumeReason_def

lemma score_exact: "fst (scoreFactors s t) = Fin (spec_score s t)"
  by (simp add: factor_defs spec_score_def points_defs Let_def jsub_def lit_values rnd64_halves)

lemma reasons_exact: "snd (scoreFactors s t) = spec_reasons s t"
  by (simp add: factor_defs reason_defs)

lemma base_points_range:
  "\<bar>sentimentPoints s + rsiPoints t + macdPoints t + momentumPoints t\<bar> \<le> 6"
proof -
  have "\<bar>sentimentPoints s\<bar> \<le> 2" "\<bar>rsiPoints t\<bar> \<le> 2" "\<bar>macdPoints t\<bar> \<le> 1"
    "\<bar>momentumPoints t\<bar> \<le> 1"
    by (simp_all add: points_defs)
  then show ?thesis by linarith
qed

lemma spec_score_cases: "\<exists>m::int. - 13 \<le> m \<and> m \<le> 13 \<and> spec_score s t = of_int m / 2"
proof -
  define n where "n = sentimentPoints s + rsiPoints t + macdPoints t + momentumPoints t"
  have n: "\<bar>n\<bar> \<le> 6"
    unfolding n_def by (rule base_points_range)
  have "spec_score s t = of_int (2 * n) / 2 \<or> spec_score s t = of_int (2 * n + sgn n) / 2"
    by (simp add: spec_score_def Let_def n_def [symmetric] sgn_if add_divide_distrib)
  moreover have "- 13 \<le> 2 * n + sgn n \<and> 2 * n + sgn n \<le> 13"
    using n by (auto simp add: sgn_if)
  moreover have "- 13 \<le> 2 * n \<and> 2 * n \<le> 13"
    using n by linarith
  ultimately show ?thesis by blast
qed

lemma half_score_cases:
  assumes "- 13 \<le> m" "m \<le> 13"
  shows "m \<in> {- 13, - 12, - 11, - 10, - 9, - 8, - 7, - 6, - 5, - 4, - 3, - 2, - 1, 0,
               1, 2, 3, 4, 5, 6, 7, 8, 9, 10, 11, 12, 13 :: int}"
  using assms by simp presburger

lemma decision_table:
  assumes "- 13 \<le> m" "m \<le> 13" "q = of_int m / 2"
  shows "determineAction (Fin q, []) = decided (spec_action q) (cents q) \<and>
         \<bar>of_int (cents q) / 100 - spec_confidence q\<bar> \<le> 1 / 200 \<and>
         cents q \<in> set [50, 53, 55, 57, 60, 63, 65, 70, 75, 80, 85, 90]"
  using half_score_cases [OF assms(1,2)] unfolding assms(3)
  by (elim insertE emptyE)
     (simp_all add: sell_table hold_table buy_table spec_action_def cents_def
        spec_confidence_def)

text \<open>
  The hundredths of the code against step 8: the formula of step 7 rounded to two decimal
  places, but for the scores \<open>3/2\<close> and \<open>-3/2\<close>.
\<close>

lemma cents_rounding:
  assumes "- 13 \<le> m" "m \<le> 13" "q = of_int m / 2"
  shows "cents q = (if \<bar>q\<bar> = 3 / 2 then 57 else spec_round2 (spec_confidence q))"
  using half_score_cases [OF assms(1,2)] unfolding assms(3)
  by (elim insertE emptyE)
     (simp_all add: cents_def spec_confidence_def spec_round2_def floor_eq_iff)

lemma determineAction_reasoning:
  "determineAction (score, rs) = (determineAction (score, []))\<lparr>reasoning := take 3 rs\<rparr>"
  by (simp add: determineAction_def Let_def split: prod.splits)

lemma prediction_char:
  "makeSimplePrediction s t =
     \<lparr>action = spec_action (spec_score s t),
      confidence = lit (of_int (cents (spec_score s t)) / 100),
      reasoning = take 3 (spec_reasons s t)\<rparr>"
proof -
  obtain m :: int where m: "- 13 \<le> m" "m \<le> 13" "spec_score s t = of_int m / 2"
    using spec_score_cases by blast
  have "scoreFactors s t = (Fin (spec_score s t), spec_reasons s t)"
    using score_exact [of s t] reasons_exact [of s t] by (cases "scoreFactors s t") simp
  then have "makeSimplePrediction s t =
      (determineAction (Fin (spec_score s t), []))\<lparr>reasoning := take 3 (spec_reasons s t)\<rparr>"
    unfolding makeSimplePrediction_def using determineAction_reasoning by metis
  then show ?thesis
    using decision_table [OF m] by (simp add: decided_def)
qed

lemma cents_of_score:
  "cents (spec_score s t) \<in> set [50, 53, 55, 57, 60, 63, 65, 70, 75, 80, 85, 90] \<and>
   \<bar>of_int (cents (spec_score s t)) / 100 - spec_confidence (spec_score s t)\<bar> \<le> 1 / 200"
proof -
  obtain m :: int where m: "- 13 \<le> m" "m \<le> 13" "spec_score s t = of_int m / 2"
    using spec_score_cases by blast
  show ?thesis
    using decision_table [OF m] by simp
qed

lemma cents_bounds:
  assumes "k \<in> set [50, 53, 55, 57, 60, 63, 65, 70, 75, 80, 85, 90]"
  shows "jle (lit (5 / 10)) (lit (of_int k / 100)) \<and>
         jle (lit (of_int k / 100)) (lit (9 / 10)) \<and> truthy (lit (of_int k / 100))"
  using cents_table assms by blast

lemma confidence_bounds:
  "jle (lit (5 / 10)) (confidence (makeSimplePrediction s t)) \<and>
   jle (confidence (makeSimplePrediction s t)) (lit (9 / 10)) \<and>
   truthy (confidence (makeSimplePrediction s t))"
  unfolding prediction_char
  using cents_bounds [OF conjunct1 [OF cents_of_score [of s t]]] by simp

section \<open>Claims about the decision fuser\<close>

text \<open>
  Claim C1, amended. For every sentiment summary and technical snapshot the score the
  fuser reaches is the score of section 4.3 (sentiment 2 points at the thresholds 0.2 and
  -0.2, RSI 2 points at 30 and 70, MACD 1 point, price change 1 point at 2 and -2, then
  the amplification by half the sign of the score when the volume ratio exceeds 1.5), the
  action is BUY from 3 on, SELL from -3 down and HOLD between, and the confidence is the
  formula of step 7 rounded to two decimal places, a tie rounded up, except at the scores
  1.5 and -1.5: there the binary64 value of \<^verbatim>\<open>0.5 + 1.5 * 0.05\<close> lies below 0.575 and
  the confidence is 0.57. For an average sentiment of 0.3, an RSI of 25, a MACD of 0.5, a
  price change of 3 and a volume ratio of 2.0 the score is 6.5, the action is BUY and the
  confidence is the number 0.9.
\<close>

theorem fuser_follows_spec:
  "fst (scoreFactors s t) = Fin (spec_score s t) \<and>
   action (makeSimplePrediction s t) = spec_action (spec_score s t) \<and>
   confidence (makeSimplePrediction s t) =
     lit (of_int (if \<bar>spec_score s t\<bar> = 3 / 2 then 57
                  else spec_round2 (spec_confidence (spec_score s t))) / 100) \<and>
   fst (scoreFactors (s\<lparr>avgSentiment := lit (3 / 10)\<rparr>)
          (t\<lparr>rsi := Fin 25, macd := lit (5 / 10), priceChange1d := Fin 3,
             volumeRatio := Fin 2\<rparr>)) = Fin (13 / 2) \<and>
   action (makeSimplePrediction (s\<lparr>avgSentiment := lit (3 / 10)\<rparr>)
          (t\<lparr>rsi := Fin 25, macd := lit (5 / 10), priceChange1d := Fin 3,
             volumeRatio := Fin 2\<rparr>)) = BUY \<and>
   confidence (makeSimplePrediction (s\<lparr>avgSentiment := lit (3 / 10)\<rparr>)
          (t\<lparr>rsi := Fin 25, macd := lit (5 / 10), priceChange1d := Fin 3,
             volumeRatio := Fin 2\<rparr>)) = lit (9 / 10)"
proof -
  let ?s = "s\<lparr>avgSentiment := lit (3 / 10)\<rparr>"
  let ?t = "t\<lparr>rsi := Fin 25, macd := lit (5 / 10), priceChange1d := Fin 3,
              volumeRatio := Fin 2\<rparr>"
  obtain m :: int where m: "- 13 \<le> m" "m \<le> 13" "spec_score s t = of_int m / 2"
    using spec_score_cases by blast
  have general: "confidence (makeSimplePrediction s t) =
      lit (of_int (if \<bar>spec_score s t\<bar> = 3 / 2 then 57
                   else spec_round2 (spec_confidence (spec_score s t))) / 100)"
    unfolding prediction_char cents_rounding [OF m, symmetric] by simp
  have scenario: "spec_score ?s ?t = 13 / 2"
    by (simp add: spec_score_def points_defs jgt_def lit_values)
  have "cents (13 / 2) = 90" "spec_action (13 / 2) = BUY"
    by (simp_all add: cents_def spec_action_def)
  then have "action (makeSimplePrediction ?s ?t) = BUY"
    "confidence (makeSimplePrediction ?s ?t) = lit (9 / 10)"
    unfolding prediction_char scenario by simp_all
  moreover have "fst (scoreFactors ?s ?t) = Fin (13 / 2)"
    unfolding score_exact scenario ..
  moreover have "action (makeSimplePrediction s t) = spec_action (spec_score s t)"
    by (simp add: prediction_char)
  ultimately show ?thesis
    using general score_exact [of s t] by blast
qed

text \<open>
  Claim C1 as stated fails: without news, at a flat market with a volume ratio of 2 the
  score is -1.5 and the formula of step 7 gives 0.575, which rounds to 0.58; the fuser
  returns 0.57, another number.
\<close>

theorem confidence_rounding_counterexample:
  "spec_score noNews (flatMarket\<lparr>volumeRatio := Fin 2\<rparr>) = - (3 / 2) \<and>
   spec_confidence (- (3 / 2)) = 23 / 40 \<and>
   spec_round2 (23 / 40) = 58 \<and>
   confidence (makeSimplePrediction noNews (flatMarket\<lparr>volumeRatio := Fin 2\<rparr>)) =
     lit (57 / 100) \<and>
   confidence (makeSimplePrediction noNews (flatMarket\<lparr>volumeRatio := Fin 2\<rparr>)) \<noteq>
     lit (of_int (spec_round2 (spec_confidence
       (spec_score noNews (flatMarket\<lparr>volumeRatio := Fin 2\<rparr>)))) / 100)"
proof -
  have score: "spec_score noNews (flatMarket\<lparr>volumeRatio := Fin 2\<rparr>) = - (3 / 2)"
    by (simp add: spec_score_def points_defs jgt_def lit_values noNews_def flatMarket_def)
  have formula: "spec_confidence (- (3 / 2)) = 23 / 40" "spec_round2 (23 / 40) = 58"
    by (simp_all add: spec_confidence_def spec_round2_def)
  have code: "confidence (makeSimplePrediction noNews (flatMarket\<lparr>volumeRatio := Fin 2\<rparr>)) =
      lit (57 / 100)"
    unfolding prediction_char score by (simp add: cents_def)
  have spec: "lit (of_int (spec_round2 (spec_confidence
      (spec_score noNews (flatMarket\<lparr>volumeRatio := Fin 2\<rparr>)))) / 100) = lit (29 / 50)"
    unfolding score formula by simp
  have "lit (57 / 100) \<noteq> lit (29 / 50)"
    by (simp add: hundredths_apart)
  then show ?thesis
    unfolding spec using score formula code by simp
qed

text \<open>
  Claim C10. For every sentiment summary and technical snapshot the confidence the fuser
  returns lies between 0.5 and 0.9, both included: the comparisons \<^verbatim>\<open>0.5 <= confidence\<close>
  and \<^verbatim>\<open>confidence <= 0.9\<close> hold, and the confidence is a number of hundredths between
  50 and 90.
\<close>

theorem confidence_in_range:
  "jle (lit (5 / 10)) (confidence (makeSimplePrediction s t)) \<and>
   jle (confidence (makeSimplePrediction s t)) (lit (9 / 10)) \<and>
   (\<exists>k::int. 50 \<le> k \<and> k \<le> 90 \<and>
      confidence (makeSimplePrediction s t) = lit (of_int k / 100))"
proof -
  have "cents (spec_score s t) \<in> set [50, 53, 55, 57, 60, 63, 65, 70, 75, 80, 85, 90]"
    using cents_of_score by blast
  then have "50 \<le> cents (spec_score s t) \<and> cents (spec_score s t) \<le> 90"
    by auto
  then have "\<exists>k::int. 50 \<le> k \<and> k \<le> 90 \<and>
      confidence (makeSimplePrediction s t) = lit (of_int k / 100)"
    by (intro exI [of _ "cents (spec_score s t)"]) (simp add: prediction_char)
  then show ?thesis
    using confidence_bounds [of s t] by blast
qed

text \<open>
  Claim C9. For every sentiment summary and technical snapshot the reasons the fuser
  collects are those of steps 2 to 6 in the order of the steps (sentiment, RSI, MACD,
  price momentum, volume), and the reasoning list it returns is the first 3 of them, in
  that order: it has at most 3 entries and nothing sorts them.
\<close>

theorem reasoning_first_three_in_order:
  "snd (scoreFactors s t) = spec_reasons s t \<and>
   reasoning (makeSimplePrediction s t) = take 3 (spec_reasons s t) \<and>
   length (reasoning (makeSimplePrediction s t)) \<le> 3"
  by (simp add: prediction_char reasons_exact)

text \<open>Each statement of the fuser reads one field of the snapshot.\<close>

lemma other_factors_ignore_macd:
  "rsiFactor (t\<lparr>macd := x\<rparr>) = rsiFactor t"
  "momentumFactor (t\<lparr>macd := x\<rparr>) = momentumFactor t"
  "volumeConfirmation (t\<lparr>macd := x\<rparr>) = volumeConfirmation t"
  by (simp_all add: factor_defs cong: if_cong)

lemma other_factors_ignore_rsi:
  "macdFactor (t\<lparr>rsi := x\<rparr>) = macdFactor t"
  "momentumFactor (t\<lparr>rsi := x\<rparr>) = momentumFactor t"
  "volumeConfirmation (t\<lparr>rsi := x\<rparr>) = volumeConfirmation t"
  by (simp_all add: factor_defs cong: if_cong)

lemma stage_score:
  "fst (rsiFactor t (sentimentFactor s (Fin 0, []))) = Fin (of_int (sentimentPoints s + rsiPoints t))"
  by (simp add: factor_defs points_defs jsub_def rnd64_halves)

text \<open>
  Claim C6. For every sentiment summary and every technical snapshot whose MACD is exactly
  0 the fuser takes the bearish branch: the MACD statement subtracts 1 from the score
  (the score after it is the score before it minus 1, exactly) and appends
  "MACD shows bearish momentum". There is no neutral branch: the bullish reason is absent
  and the prediction is the one a negative MACD gives.
\<close>

theorem macd_zero_is_bearish:
  assumes "macd t = Fin 0"
  shows "macdFactor t (score, rs) = (jsub score (Fin 1), rs @ [''MACD shows bearish momentum'']) \<and>
         fst (macdFactor t (rsiFactor t (sentimentFactor s (Fin 0, [])))) =
           Fin (of_int (sentimentPoints s + rsiPoints t) - 1) \<and>
         ''MACD shows bearish momentum'' \<in> set (snd (scoreFactors s t)) \<and>
         ''MACD shows bullish momentum'' \<notin> set (snd (scoreFactors s t)) \<and>
         makeSimplePrediction s t = makeSimplePrediction s (t\<lparr>macd := Fin (- 1)\<rparr>)"
proof -
  have branch: "\<not> jgt (macd t) (Fin 0)"
    using assms by (simp add: jgt_def)
  have step: "macdFactor t (score, rs) =
      (jsub score (Fin 1), rs @ [''MACD shows bearish momentum''])" for score rs
    using branch by (simp add: macdFactor_def)
  have "fst (macdFactor t (rsiFactor t (sentimentFactor s (Fin 0, [])))) =
      jsub (Fin (of_int (sentimentPoints s + rsiPoints t))) (Fin 1)"
    using stage_score [of t s] step by (cases "rsiFactor t (sentimentFactor s (Fin 0, []))") simp
  also have "\<dots> = Fin (of_int (sentimentPoints s + rsiPoints t) - 1)"
    by (simp add: points_defs jsub_def rnd64_halves)
  finally have exact: "fst (macdFactor t (rsiFactor t (sentimentFactor s (Fin 0, [])))) =
      Fin (of_int (sentimentPoints s + rsiPoints t) - 1)" .
  have reasons: "''MACD shows bearish momentum'' \<in> set (snd (scoreFactors s t))"
    "''MACD shows bullish momentum'' \<notin> set (snd (scoreFactors s t))"
    using branch by (simp_all add: reasons_exact reason_defs)
  have "macdFactor (t\<lparr>macd := Fin (- 1)\<rparr>) = macdFactor t"
    using branch by (simp add: macdFactor_def jgt_def)
  then have "scoreFactors s (t\<lparr>macd := Fin (- 1)\<rparr>) = scoreFactors s t"
    by (simp add: scoreFactors_def other_factors_ignore_macd)
  then have "makeSimplePrediction s t = makeSimplePrediction s (t\<lparr>macd := Fin (- 1)\<rparr>)"
    by (simp add: makeSimplePrediction_def)
  with step exact reasons show ?thesis by blast
qed

text \<open>The claim at a snapshot with a MACD of 0, without news.\<close>

theorem macd_zero_is_bearish_witness:
  "macd flatMarket = Fin 0 \<and>
   macdFactor flatMarket (Fin 0, []) = (Fin (- 1), [''MACD shows bearish momentum'']) \<and>
   action (makeSimplePrediction noNews flatMarket) = HOLD"
proof -
  have zero: "macd flatMarket = Fin 0"
    by (simp add: flatMarket_def)
  have "spec_score noNews flatMarket = - 1"
    by (simp add: spec_score_def points_defs jgt_def lit_values noNews_def flatMarket_def)
  then have "action (makeSimplePrediction noNews flatMarket) = HOLD"
    by (simp add: prediction_char spec_action_def)
  then show ?thesis
    using zero macd_zero_is_bearish [OF zero, of "Fin 0" "[]" noNews]
    by (simp add: jsub_def rnd64_halves)
qed

text \<open>
  Claim C7. For every sentiment summary and every technical snapshot whose RSI is exactly
  30 or exactly 70 the fuser takes neither the oversold branch nor the overbought branch:
  the RSI statement leaves the score and the reasons as they are, neither RSI reason is
  among the reasons, and the prediction is the one an RSI of 50 gives.
\<close>

theorem rsi_boundaries_trigger_nothing:
  assumes "rsi t = Fin 30 \<or> rsi t = Fin 70"
  shows "rsiFactor t (score, rs) = (score, rs) \<and>
         ''RSI indicates oversold condition'' \<notin> set (snd (scoreFactors s t)) \<and>
         ''RSI indicates overbought condition'' \<notin> set (snd (scoreFactors s t)) \<and>
         makeSimplePrediction s t = makeSimplePrediction s (t\<lparr>rsi := Fin 50\<rparr>)"
proof -
  have branch: "\<not> jlt (rsi t) (Fin 30)" "\<not> jgt (rsi t) (Fin 70)"
    using assms by (auto simp add: jgt_def)
  have step: "rsiFactor t (score, rs) = (score, rs)"
    using branch by (simp add: rsiFactor_def)
  have reasons: "''RSI indicates oversold condition'' \<notin> set (snd (scoreFactors s t))"
    "''RSI indicates overbought condition'' \<notin> set (snd (scoreFactors s t))"
    using branch by (simp_all add: reasons_exact reason_defs)
  have "rsiFactor (t\<lparr>rsi := Fin 50\<rparr>) = rsiFactor t"
    using branch by (simp add: rsiFactor_def jgt_def)
  then have "scoreFactors s (t\<lparr>rsi := Fin 50\<rparr>) = scoreFactors s t"
    by (simp add: scoreFactors_def other_factors_ignore_rsi)
  then have "makeSimplePrediction s t = makeSimplePrediction s (t\<lparr>rsi := Fin 50\<rparr>)"
    by (simp add: makeSimplePrediction_def)
  with step reasons show ?thesis by blast
qed

text \<open>The claim at an RSI of 30 and at an RSI of 70.\<close>

theorem rsi_boundaries_trigger_nothing_witness:
  "rsiFactor (flatMarket\<lparr>rsi := Fin 30\<rparr>) (Fin 2, [''Positive news sentiment'']) =
     (Fin 2, [''Positive news sentiment'']) \<and>
   rsiFactor (flatMarket\<lparr>rsi := Fin 70\<rparr>) (Fin 2, [''Positive news sentiment'']) =
     (Fin 2, [''Positive news sentiment''])"
proof -
  have low: "rsi (flatMarket\<lparr>rsi := Fin 30\<rparr>) = Fin 30 \<or> rsi (flatMarket\<lparr>rsi := Fin 30\<rparr>) = Fin 70"
    by simp
  have high: "rsi (flatMarket\<lparr>rsi := Fin 70\<rparr>) = Fin 30 \<or> rsi (flatMarket\<lparr>rsi := Fin 70\<rparr>) = Fin 70"
    by simp
  show ?thesis
    using rsi_boundaries_trigger_nothing [OF low, of "Fin 2" "[''Positive news sentiment'']" noNews]
      rsi_boundaries_trigger_nothing [OF high, of "Fin 2" "[''Positive news sentiment'']" noNews]
    by blast
qed

section \<open>Claims about the sentiment analyzer\<close>

text \<open>
  Claim C2. For the empty sequence of news items \<^verbatim>\<open>analyzeSentiment\<close> returns 0 for the
  average sentiment, the two ratios and the news volume, where \<^verbatim>\<open>|| 0\<close> replaces the
  \<open>NaN\<close> of \<open>0 / 0\<close>. The volatility is \<open>NaN\<close>, not 0: \<^verbatim>\<open>calculateStandardDeviation\<close>
  divides 0 by 0 twice and returns the square root of \<open>NaN\<close>, and nothing replaces it.
\<close>

theorem analyzeSentiment_empty:
  "analyzeSentiment [] =
     \<lparr>avgSentiment = Fin 0, sentimentVolatility = NaN, positiveNewsRatio = Fin 0,
      negativeNewsRatio = Fin 0, newsVolume = 0\<rparr>"
  by (simp add: analyzeSentiment_def calculateStandardDeviation_def reduceSum_def len_def
      orZero_def)

section \<open>One prediction and the portfolio, step by step\<close>

text \<open>
  Rounding leaves an integer below \<open>2^53\<close> as it is, so the from-date of a lookback of 24
  hours is a valid date whatever the clock says.
\<close>

lemma round_half_even_one: "round_half_even n 1 = n"
  by (simp add: round_half_even_def)

lemma bitlen_pos: "0 < a \<Longrightarrow> 1 \<le> bitlen a"
  by (simp add: bitlen_ge_iff_power)

lemma floor_log2_int:
  assumes "0 < a"
  shows "floor_log2 a 1 = bitlen a - 1"
proof -
  have "2 ^ nat (bitlen a - 1) \<le> a"
    using bitlen_bounds [OF assms] by simp
  moreover have "bitlen 1 = 1"
    by (simp add: bitlen_alt_def)
  ultimately show ?thesis
    using bitlen_pos [OF assms] by (simp add: floor_log2_def)
qed

lemma scale2_back: "scale2 (z * 2 ^ k) (- int k) = of_int z"
  by (cases "k = 0") (simp_all add: scale2_def)

lemma rnd64_int_exact:
  assumes "\<bar>z\<bar> < 9007199254740992"
  shows "rnd64 (of_int z) = Fin (of_int z)"
proof (cases "z = 0")
  case True
  then show ?thesis by (simp add: rnd64_def)
next
  case False
  then have pos: "0 < \<bar>z\<bar>" by simp
  define l where "l = bitlen \<bar>z\<bar> - 1"
  have l: "floor_log2 \<bar>z\<bar> 1 = l"
    unfolding l_def by (rule floor_log2_int [OF pos])
  have "\<bar>z\<bar> < 2 ^ nat 53"
    using assms by simp
  then have "bitlen \<bar>z\<bar> \<le> 53"
    by (subst bitlen_le_iff_power) simp
  then have range: "0 \<le> l" "l \<le> 52"
    unfolding l_def using bitlen_pos [OF pos] by simp_all
  define k where "k = nat (52 - l)"
  have e: "max l (- 1022) - 52 = - int k"
    unfolding k_def using range by simp
  have m: "(if 0 \<le> - int k then round_half_even z (1 * 2 ^ nat (- int k))
            else round_half_even (z * 2 ^ nat (- (- int k))) 1) = z * 2 ^ k"
    by (cases "k = 0") (simp_all add: round_half_even_one)
  have nz: "(z = 0) = False"
    using False by simp
  have top: "(1023 < l) = False" "(- int k = 971) = False"
    using range by simp_all
  show ?thesis
    by (simp only: rnd64_def quotient_of_rat_of_int case_prod_conv l e Let_def m nz top
        if_False scale2_back)
qed

lemma lookback_24_valid:
  "validTime (jsub (dateNow w) (jmul (jmul (jmul (Fin 24) (Fin 60)) (Fin 60)) (Fin 1000)))"
proof -
  define z where "z = int (min (now w) 8640000000000000) - 86400000"
  have z: "- 86400000 \<le> z" "z \<le> 8640000000000000 - 86400000"
    unfolding z_def by simp_all
  then have "\<bar>z\<bar> < 9007199254740992"
    by linarith
  then have exact: "rnd64 (of_int z) = Fin (of_int z)"
    by (rule rnd64_int_exact)
  have "jsub (dateNow w) (Fin 86400000) = rnd64 (of_int z)"
    by (simp add: jsub_def dateNow_def z_def)
  then have start: "jsub (dateNow w) (Fin 86400000) = Fin (of_int z)"
    by (simp only: exact)
  have "\<bar>rat_of_int z\<bar> \<le> 8640000000000000"
    using z by (simp add: abs_le_iff)
  then show ?thesis
    by (simp only: day_in_milliseconds start validTime.simps)
qed

lemma fetch_char:
  "fetchGuardianNews (Fin 24) w =
     (newsOutcome w (length (requests w)),
      if hasKey w then w\<lparr>requests := requests w @ [Fin 24]\<rparr> else w)"
  unfolding fetchGuardianNews_def
  by (simp only: lookback_24_valid not_True_eq_False if_False)
     (simp add: newsOutcome_def hasKey_def Let_def split: httpResult.splits)

lemma predictStock_world:
  "sameSources w (snd (predictStock symb w)) \<and>
   requests (snd (predictStock symb w)) =
     requests w @ (if hasKey w then [Fin 24] else [])"
  by (simp add: predictStock_def fetch_char getTechnicalIndicators_def
      generateMockTechnicalData_def sameSources_def Let_def split: sum.splits prod.splits)

lemma predictStock_result:
  "(case newsOutcome w (length (requests w)) of
      Inl msg \<Rightarrow> fst (predictStock symb w) = Inl msg
    | Inr items \<Rightarrow>
        (let p = makeSimplePrediction (analyzeSentiment items)
                   (fst (generateMockTechnicalData symb w))
         in \<exists>sp. fst (predictStock symb w) = Inr sp \<and> symbol sp = symb \<and>
              sentimentAnalysis sp = analyzeSentiment items \<and>
              prediction sp = action p \<and> confidence' sp = confidence p \<and>
              reasoning' sp = reasoning p))"
  by (simp add: predictStock_def fetch_char getTechnicalIndicators_def
      generateMockTechnicalData_def Let_def split: sum.splits prod.splits)

lemma newsOutcome_sameSources:
  "sameSources w w' \<Longrightarrow> newsOutcome w' n = newsOutcome w n"
  by (simp add: sameSources_def newsOutcome_def hasKey_def)

lemma hasKey_sameSources:
  "sameSources w w' \<Longrightarrow> hasKey w' = hasKey w"
  by (simp add: sameSources_def hasKey_def)

lemma sameSources_refl: "sameSources w w"
  by (simp add: sameSources_def)

lemma sameSources_trans: "sameSources a b \<Longrightarrow> sameSources b c \<Longrightarrow> sameSources a c"
  by (simp add: sameSources_def)

lemma newsOutcome_no_key: "\<not> hasKey w \<Longrightarrow> newsOutcome w n = Inl ''Missing Guardian API key''"
  by (simp add: newsOutcome_def)

lemma newsOutcome_next:
  "newsOutcome w (length (requests w @ (if hasKey w then [Fin 24] else [])) + i) =
   newsOutcome w (length (requests w) + Suc i)"
  by (simp add: newsOutcome_no_key)

lemma predictStock_symbol:
  "fst (predictStock symb w) = Inr sp \<Longrightarrow> symbol sp = symb"
  using predictStock_result [where w = w and symb = symb]
  by (auto simp add: Let_def split: sum.splits)

lemma portfolio_world:
  "sameSources w (snd (predictPortfolio symbols w)) \<and>
   requests (snd (predictPortfolio symbols w)) =
     requests w @ (if hasKey w then replicate (length symbols) (Fin 24) else [])"
proof (induction symbols arbitrary: w)
  case Nil
  show ?case by (simp add: sameSources_refl)
next
  case (Cons symb symbols)
  let ?w1 = "snd (predictStock symb w)"
  have step: "sameSources w ?w1"
    "requests ?w1 = requests w @ (if hasKey w then [Fin 24] else [])"
    using predictStock_world [where w = w and symb = symb] by simp_all
  have rest: "sameSources ?w1 (snd (predictPortfolio symbols ?w1))"
    "requests (snd (predictPortfolio symbols ?w1)) =
       requests ?w1 @ (if hasKey ?w1 then replicate (length symbols) (Fin 24) else [])"
    using Cons.IH [of ?w1] by simp_all
  have "snd (predictPortfolio (symb # symbols) w) = snd (predictPortfolio symbols ?w1)"
    by (simp add: Let_def split: prod.splits)
  then show ?case
    using step rest sameSources_trans [OF step(1) rest(1)] hasKey_sameSources [OF step(1)]
    by (simp add: replicate_append_same)
qed

lemma portfolio_symbols:
  "map entrySymbol (fst (predictPortfolio symbols w)) = symbols"
proof (induction symbols arbitrary: w)
  case Nil
  show ?case by simp
next
  case (Cons symb symbols)
  obtain r w1 where r: "predictStock symb w = (r, w1)"
    by (cases "predictStock symb w")
  obtain es w2 where es: "predictPortfolio symbols w1 = (es, w2)"
    by (cases "predictPortfolio symbols w1")
  have "map entrySymbol es = symbols"
    using Cons.IH [of w1] es by simp
  moreover have "entrySymbol (case r of Inr p \<Rightarrow> Predicted p
      | Inl msg \<Rightarrow> Failed symb (''Failed to predict: '' @ msg)) = symb"
    using predictStock_symbol [of symb w] r by (cases r) simp_all
  ultimately show ?case
    by (simp add: r es)
qed

lemma portfolio_entries:
  "map entryError (fst (predictPortfolio symbols w)) =
     map (\<lambda>i. newsFailure (newsOutcome w (length (requests w) + i))) [0..<length symbols] \<and>
   map entrySentiment (fst (predictPortfolio symbols w)) =
     map (\<lambda>i. newsSentiment (newsOutcome w (length (requests w) + i))) [0..<length symbols]"
proof (induction symbols arbitrary: w)
  case Nil
  show ?case by simp
next
  case (Cons symb symbols)
  obtain r w1 where r: "predictStock symb w = (r, w1)"
    by (cases "predictStock symb w")
  obtain es w2 where es: "predictPortfolio symbols w1 = (es, w2)"
    by (cases "predictPortfolio symbols w1")
  have step: "sameSources w w1"
    "requests w1 = requests w @ (if hasKey w then [Fin 24] else [])"
    using predictStock_world [where w = w and symb = symb] r by simp_all
  have shift: "newsOutcome w1 (length (requests w1) + i) =
      newsOutcome w (length (requests w) + Suc i)" for i
    unfolding newsOutcome_sameSources [OF step(1)] step(2) by (rule newsOutcome_next)
  let ?e = "case r of Inr p \<Rightarrow> Predicted p
                | Inl msg \<Rightarrow> Failed symb (''Failed to predict: '' @ msg)"
  have head: "entryError ?e = newsFailure (newsOutcome w (length (requests w)))"
      "entrySentiment ?e = newsSentiment (newsOutcome w (length (requests w)))"
    using predictStock_result [where w = w and symb = symb] r
    by (auto simp add: Let_def split: sum.splits)
  have tail: "map entryError es =
      map (\<lambda>i. newsFailure (newsOutcome w (length (requests w) + Suc i))) [0..<length symbols]"
    "map entrySentiment es =
      map (\<lambda>i. newsSentiment (newsOutcome w (length (requests w) + Suc i))) [0..<length symbols]"
    using Cons.IH [of w1] es by (simp_all add: shift)
  have "fst (predictPortfolio (symb # symbols) w) = ?e # es"
    by (simp add: r es)
  then show ?case
    using head tail by (simp add: map_upt_Suc del: upt_Suc)
qed

lemma predictStock_fused:
  "fst (predictStock symb w) = Inr sp \<Longrightarrow> fused sp"
  using predictStock_result [where w = w and symb = symb]
  by (auto simp add: Let_def fused_def split: sum.splits)

lemma portfolio_fused:
  "sp \<in> set (successes (fst (predictPortfolio symbols w))) \<Longrightarrow> fused sp"
proof (induction symbols arbitrary: w)
  case Nil
  then show ?case by simp
next
  case (Cons symb symbols)
  obtain r w1 where r: "predictStock symb w = (r, w1)"
    by (cases "predictStock symb w")
  obtain es w2 where es: "predictPortfolio symbols w1 = (es, w2)"
    by (cases "predictPortfolio symbols w1")
  show ?case
  proof (cases r)
    case (Inl msg)
    then show ?thesis
      using Cons.prems Cons.IH [of w1] by (simp add: r es)
  next
    case (Inr p)
    then have "fused p"
      using predictStock_fused [of symb w p] r by simp
    then show ?thesis
      using Cons.prems Cons.IH [of w1] Inr by (auto simp add: r es)
  qed
qed

text \<open>The parts of the handler's reply.\<close>

lemma GET_parts:
  "status (fst (GET req w)) = 200"
  "predictions (body (fst (GET req w))) = fst (predictPortfolio (requestedSymbols req) w)"
  "snd (GET req w) = snd (predictPortfolio (requestedSymbols req) w)"
  "totalSymbols (summary (body (fst (GET req w)))) = length (requestedSymbols req)"
  by (simp_all add: GET_def Let_def split: prod.splits)

lemma GET_signals:
  "buySignals (summary (body (fst (GET req w)))) =
     length (filter (signals BUY) (fst (predictPortfolio (requestedSymbols req) w)))"
  "sellSignals (summary (body (fst (GET req w)))) =
     length (filter (signals SELL) (fst (predictPortfolio (requestedSymbols req) w)))"
  "holdSignals (summary (body (fst (GET req w)))) =
     length (filter (signals HOLD) (fst (predictPortfolio (requestedSymbols req) w)))"
  by (simp_all add: GET_def Let_def split: prod.splits)

lemma GET_avgConfidence:
  "avgConfidence (summary (body (fst (GET req w)))) =
     (let preds = fst (predictPortfolio (requestedSymbols req) w)
      in orZero (jdiv (foldl (\<lambda>acc p. jadd acc (confidenceOrZero p)) (Fin 0)
                         (filter confident preds))
                      (len (filter confident preds))))"
  by (simp add: GET_def Let_def split: prod.splits)

lemma signals_successes:
  "length (filter (signals a) es) = length (filter (\<lambda>p. prediction p = a) (successes es))"
  by (induction es rule: successes.induct) simp_all

text \<open>
  The mean confidence. Rounding never gives \<open>NaN\<close>, so a sum of finite numbers is not
  \<open>NaN\<close>, and \<^verbatim>\<open>|| 0\<close> changes nothing but a \<open>NaN\<close>.
\<close>

lemma rnd64_not_NaN: "rnd64 x \<noteq> NaN"
  by (simp add: rnd64_def Let_def split: prod.splits)

lemma orZero_id: "x \<noteq> NaN \<Longrightarrow> orZero x = x"
  by (cases x) (simp_all add: orZero_def)

lemma jadd_Fin_not_NaN: "x \<noteq> NaN \<Longrightarrow> jadd x (Fin c) \<noteq> NaN"
  by (cases x) (simp_all add: rnd64_not_NaN)

lemma reduceSum_not_NaN:
  "x \<noteq> NaN \<Longrightarrow> \<forall>c \<in> set cs. \<exists>q. c = Fin q \<Longrightarrow> foldl jadd x cs \<noteq> NaN"
proof (induction cs arbitrary: x)
  case Nil
  then show ?case by simp
next
  case (Cons c cs)
  then obtain q where "c = Fin q" by auto
  then show ?case
    using Cons by (simp add: jadd_Fin_not_NaN)
qed

lemma jdiv_count_not_NaN: "x \<noteq> NaN \<Longrightarrow> 0 < n \<Longrightarrow> jdiv x (Fin (of_nat n)) \<noteq> NaN"
  by (cases x) (simp_all add: rnd64_not_NaN)

lemma confidence_finite:
  "\<exists>q. confidence (makeSimplePrediction s t) = Fin q \<and> q \<noteq> 0"
  using confidence_bounds [of s t]
  by (cases "confidence (makeSimplePrediction s t)") (simp_all add: lit_values)

lemma fused_confidence: "fused sp \<Longrightarrow> \<exists>q. confidence' sp = Fin q \<and> q \<noteq> 0"
  using confidence_finite by (auto simp add: fused_def)

lemma confident_successes:
  "\<forall>sp \<in> set (successes es). fused sp \<Longrightarrow> filter confident es = map Predicted (successes es)"
proof (induction es rule: successes.induct)
  case 1
  show ?case by simp
next
  case (2 p es)
  then show ?case
    using fused_confidence [of p] by auto
next
  case (3 symb err es)
  then show ?case by simp
qed

lemma sum_successes:
  "\<forall>sp \<in> set ps. fused sp \<Longrightarrow>
   foldl (\<lambda>acc p. jadd acc (confidenceOrZero p)) x (map Predicted ps) =
   foldl jadd x (map confidence' ps)"
proof (induction ps arbitrary: x)
  case Nil
  show ?case by simp
next
  case (Cons p ps)
  then obtain q where "confidence' p = Fin q" "q \<noteq> 0"
    using fused_confidence [of p] by auto
  then show ?case
    using Cons by (simp add: orZero_def)
qed

lemma mean_confidence:
  assumes "\<forall>sp \<in> set (successes es). fused sp"
  shows "orZero (jdiv (foldl (\<lambda>acc p. jadd acc (confidenceOrZero p)) (Fin 0)
                         (filter confident es))
                      (len (filter confident es))) =
         (if successes es = [] then Fin 0
          else jdiv (reduceSum (map confidence' (successes es))) (len (successes es)))"
proof (cases "successes es = []")
  case True
  then show ?thesis
    using confident_successes [OF assms] by (simp add: len_def orZero_def)
next
  case False
  have fin: "\<forall>c \<in> set (map confidence' (successes es)). \<exists>q. c = Fin q"
    using assms fused_confidence by auto
  have "reduceSum (map confidence' (successes es)) \<noteq> NaN"
    unfolding reduceSum_def by (rule reduceSum_not_NaN [OF _ fin]) simp
  then have "jdiv (reduceSum (map confidence' (successes es))) (len (successes es)) \<noteq> NaN"
    unfolding len_def using False by (intro jdiv_count_not_NaN) simp_all
  then show ?thesis
    using False confident_successes [OF assms] sum_successes [OF assms]
    by (simp add: orZero_id len_def reduceSum_def)
qed

section \<open>Claims about the portfolio\<close>

text \<open>
  Claim C5. For every portfolio request the output holds one entry per requested symbol,
  in the order of the request, each under its own symbol; an entry is an error marker
  exactly when the news fetch of its own prediction failed, whatever happened to the
  symbols before it. The summary's total is the number of symbols requested, its BUY,
  SELL and HOLD counts are those of the successful predictions, and its average
  confidence is the mean of their confidences (their sum, as \<^verbatim>\<open>reduce\<close> adds it,
  divided by their number), 0 when no prediction succeeded.
\<close>

theorem portfolio_isolates_failures:
  "let symbols = requestedSymbols req;
       res = body (fst (GET req w));
       ok = successes (predictions res)
   in map entrySymbol (predictions res) = symbols \<and>
      length (predictions res) = length symbols \<and>
      map entryError (predictions res) =
        map (\<lambda>i. newsFailure (newsOutcome w (length (requests w) + i)))
          [0..<length symbols] \<and>
      totalSymbols (summary res) = length symbols \<and>
      buySignals (summary res) = length (filter (\<lambda>p. prediction p = BUY) ok) \<and>
      sellSignals (summary res) = length (filter (\<lambda>p. prediction p = SELL) ok) \<and>
      holdSignals (summary res) = length (filter (\<lambda>p. prediction p = HOLD) ok) \<and>
      avgConfidence (summary res) =
        (if ok = [] then Fin 0 else jdiv (reduceSum (map confidence' ok)) (len ok))"
proof -
  let ?symbols = "requestedSymbols req"
  let ?es = "fst (predictPortfolio ?symbols w)"
  have symbols: "map entrySymbol ?es = ?symbols"
    by (rule portfolio_symbols)
  then have count: "length ?es = length ?symbols"
    by (metis length_map)
  have fused: "\<forall>sp \<in> set (successes ?es). fused sp"
    using portfolio_fused by blast
  have mean: "avgConfidence (summary (body (fst (GET req w)))) =
      (if successes ?es = [] then Fin 0
       else jdiv (reduceSum (map confidence' (successes ?es))) (len (successes ?es)))"
    unfolding GET_avgConfidence Let_def by (rule mean_confidence [OF fused])
  show ?thesis
    unfolding Let_def GET_parts GET_signals signals_successes
    using symbols count mean portfolio_entries [of ?symbols w]
    by (simp add: GET_parts)
qed

text \<open>The sample requests and worlds, evaluated.\<close>

lemma sample_symbols:
  "requestedSymbols threeSymbols = [''AAPL'', ''TSLA'', ''MSFT'']"
  "requestedSymbols twoSymbols48 = [''AAPL'', ''MSFT'']"
  "requestedSymbols onlyApple = [''AAPL'']"
  "requestedSymbols malformed = [''AAPL'', ''GOOGL'', ''MSFT'']"
  by code_simp+

lemma sample_hours:
  "requestedHours twoSymbols48 = Fin 48"
  "requestedHours malformed = Fin (- 5)"
  by code_simp+

lemma status_503: "showNat 503 = ''503''"
  by code_simp

lemma sample_outcomes:
  "newsOutcome outageWorld n =
     (if n = 1 then Inl ''Guardian API error: 503'' else Inr [])"
  "newsOutcome noKeyWorld n = Inl ''Missing Guardian API key''"
  "newsOutcome calmWorld n =
     (if n = 0 then Inr [\<lparr>title = ''Profit up'', description = [],
        publishedAt = ''2024-01-01T00:00:00Z'', url = ''https://example.org/1''\<rparr>]
      else Inr [])"
  by (simp_all add: newsOutcome_def hasKey_def outageWorld_def noKeyWorld_def calmWorld_def
      toNewsItem_def status_503)

lemma sample_worlds:
  "requests calmWorld = []" "requests noKeyWorld = []" "requests outageWorld = []"
  "hasKey calmWorld" "\<not> hasKey noKeyWorld" "hasKey outageWorld"
  by (simp_all add: hasKey_def outageWorld_def noKeyWorld_def calmWorld_def)

text \<open>
  Three symbols, the news request of the second answered with status 503: three
  entries in order, the second an error marker, the total 3.
\<close>

theorem portfolio_isolates_failures_example:
  "map entrySymbol (predictions (body (fst (GET threeSymbols outageWorld)))) =
     [''AAPL'', ''TSLA'', ''MSFT''] \<and>
   map entryError (predictions (body (fst (GET threeSymbols outageWorld)))) =
     [None, Some ''Failed to predict: Guardian API error: 503'', None] \<and>
   totalSymbols (summary (body (fst (GET threeSymbols outageWorld)))) = 3"
  using portfolio_isolates_failures [of threeSymbols outageWorld]
  by (simp add: Let_def sample_symbols sample_worlds sample_outcomes)

lemma newsVolume_analyzeSentiment: "newsVolume (analyzeSentiment items) = length items"
  by (simp add: analyzeSentiment_def Let_def)

lemma newsVolume_newsSentiment:
  "map_option newsVolume (newsSentiment (Inr items)) = Some (length items)"
  by (simp add: newsVolume_analyzeSentiment)

text \<open>
  Claim C3, amended. For every portfolio request the news is fetched once per requested
  symbol, by that symbol's own prediction: with a Guardian key the request makes as many
  news requests as it has symbols (without one it makes none), and the sentiment summary
  of the \<open>i\<close>-th entry is the analysis of the news the \<open>i\<close>-th of these requests returned:
  no summary is shared between symbols. When the request supplies no lookback window,
  every news request asks for 24 hours.
\<close>

theorem news_fetched_per_symbol:
  "length (requests (snd (GET req w))) =
     length (requests w) + (if hasKey w then length (requestedSymbols req) else 0) \<and>
   map entrySentiment (predictions (body (fst (GET req w)))) =
     map (\<lambda>i. newsSentiment (newsOutcome w (length (requests w) + i)))
       [0..<length (requestedSymbols req)] \<and>
   (hoursParam req = None \<longrightarrow>
      requests (snd (GET req w)) =
        requests w @ (if hasKey w then replicate (length (requestedSymbols req)) (Fin 24)
                      else []))"
  using portfolio_world [of w "requestedSymbols req"]
    portfolio_entries [of "requestedSymbols req" w]
  by (simp add: GET_parts)

text \<open>
  Three symbols and no lookback in \<open>calmWorld\<close>: three news requests of 24 hours, and
  the first summary counts one article, the others none.
\<close>

theorem news_fetched_per_symbol_witness:
  "hoursParam threeSymbols = None \<and>
   requests (snd (GET threeSymbols calmWorld)) = [Fin 24, Fin 24, Fin 24] \<and>
   map (map_option newsVolume)
     (map entrySentiment (predictions (body (fst (GET threeSymbols calmWorld))))) =
     [Some 1, Some 0, Some 0]"
proof -
  have none: "hoursParam threeSymbols = None"
    by (simp add: threeSymbols_def)
  show ?thesis
    using none news_fetched_per_symbol [of threeSymbols calmWorld]
    by (simp add: sample_symbols sample_worlds sample_outcomes newsVolume_analyzeSentiment
        numeral_3_eq_3)
qed

text \<open>
  Claim C3 as stated fails: a request for two symbols with a lookback of 48 hours makes
  two news requests, both for 24 hours, and the two symbols get different sentiment
  summaries (one article for the first, none for the second).
\<close>

theorem news_fetched_once_counterexample:
  "requestedHours twoSymbols48 = Fin 48 \<and>
   requests (snd (GET twoSymbols48 calmWorld)) = [Fin 24, Fin 24] \<and>
   map (map_option newsVolume)
     (map entrySentiment (predictions (body (fst (GET twoSymbols48 calmWorld))))) =
     [Some 1, Some 0]"
  using portfolio_world [of calmWorld "requestedSymbols twoSymbols48"]
    portfolio_entries [of "requestedSymbols twoSymbols48" calmWorld]
  by (simp add: GET_parts sample_hours sample_symbols sample_worlds sample_outcomes
      newsVolume_analyzeSentiment numeral_2_eq_2)

lemma no_successes:
  "\<forall>e \<in> set es. entryError e \<noteq> None \<Longrightarrow> successes es = []"
  by (induction es rule: successes.induct) simp_all

text \<open>
  Claim C4, amended. For every portfolio request in which the news fetch of every symbol
  fails (no key, a rejected request, a response that is not ok, a body that does not
  parse), no symbol is scored: every entry is the error marker of its symbol, with the
  error "Failed to predict: " followed by the message of its news failure; there is no
  successful prediction, the summary counts no signal and its average confidence is 0.
  The failure is surfaced in the output, symbol by symbol; the reply itself has status 200.
\<close>

theorem news_failure_fails_every_symbol:
  assumes "\<forall>i < length (requestedSymbols req). isl (newsOutcome w (length (requests w) + i))"
  shows "status (fst (GET req w)) = 200 \<and>
         map entrySymbol (predictions (body (fst (GET req w)))) = requestedSymbols req \<and>
         map entryError (predictions (body (fst (GET req w)))) =
           map (\<lambda>i. Some (''Failed to predict: ''
                           @ projl (newsOutcome w (length (requests w) + i))))
             [0..<length (requestedSymbols req)] \<and>
         successes (predictions (body (fst (GET req w)))) = [] \<and>
         buySignals (summary (body (fst (GET req w)))) = 0 \<and>
         sellSignals (summary (body (fst (GET req w)))) = 0 \<and>
         holdSignals (summary (body (fst (GET req w)))) = 0 \<and>
         avgConfidence (summary (body (fst (GET req w)))) = Fin 0"
proof -
  let ?symbols = "requestedSymbols req"
  let ?es = "fst (predictPortfolio ?symbols w)"
  have failure: "newsFailure (newsOutcome w (length (requests w) + i)) =
      Some (''Failed to predict: '' @ projl (newsOutcome w (length (requests w) + i)))"
    if "i < length ?symbols" for i
    using assms that by (cases "newsOutcome w (length (requests w) + i)") auto
  have errors: "map entryError ?es =
      map (\<lambda>i. Some (''Failed to predict: ''
                      @ projl (newsOutcome w (length (requests w) + i))))
        [0..<length ?symbols]"
    using portfolio_entries [of ?symbols w] failure by simp
  have "\<forall>x \<in> set (map entryError ?es). x \<noteq> None"
    unfolding errors by auto
  then have none: "successes ?es = []"
    by (intro no_successes) simp
  have fused: "\<forall>sp \<in> set (successes ?es). fused sp"
    using none by simp
  have "avgConfidence (summary (body (fst (GET req w)))) = Fin 0"
    unfolding GET_avgConfidence Let_def mean_confidence [OF fused] using none by simp
  then show ?thesis
    using errors none portfolio_symbols [of ?symbols w]
    by (simp add: GET_parts GET_signals signals_successes)
qed

text \<open>Three symbols without a Guardian key: three error markers and an average of 0.\<close>

theorem news_failure_fails_every_symbol_witness:
  "map entryError (predictions (body (fst (GET threeSymbols noKeyWorld)))) =
     [Some ''Failed to predict: Missing Guardian API key'',
      Some ''Failed to predict: Missing Guardian API key'',
      Some ''Failed to predict: Missing Guardian API key''] \<and>
   avgConfidence (summary (body (fst (GET threeSymbols noKeyWorld)))) = Fin 0"
proof -
  have down: "\<forall>i < length (requestedSymbols threeSymbols).
      isl (newsOutcome noKeyWorld (length (requests noKeyWorld) + i))"
    by (simp add: sample_outcomes)
  show ?thesis
    using news_failure_fails_every_symbol [OF down]
    by (simp add: sample_symbols sample_outcomes numeral_3_eq_3)
qed

text \<open>
  Claim C4 as stated fails: without a Guardian key the output for the one symbol AAPL is
  an error marker carrying the news failure, not a prediction with neutral sentiment.
\<close>

theorem news_failure_degrades_counterexample:
  "predictions (body (fst (GET onlyApple noKeyWorld))) =
     [Failed ''AAPL'' ''Failed to predict: Missing Guardian API key'']"
  by (simp add: GET_parts sample_symbols predictStock_def fetch_char sample_outcomes
      sample_worlds)

lemma split_nonempty: "split sep s \<noteq> []"
  by (induction s) (auto split: list.splits)

text \<open>
  Claim C8, amended. The handler rejects no request: whatever the symbol list and the
  lookback window, the reply has status 200 and one entry per symbol of the list it
  processes, after one news request per symbol when a Guardian key is configured. The
  list is never empty: a missing symbols parameter stands for AAPL, GOOGL and MSFT, an
  empty one for the single symbol "". The lookback window is not validated.
\<close>

theorem get_rejects_nothing:
  "status (fst (GET req w)) = 200 \<and>
   requestedSymbols req \<noteq> [] \<and>
   map entrySymbol (predictions (body (fst (GET req w)))) = requestedSymbols req \<and>
   requestedSymbols (req\<lparr>symbolsParam := None\<rparr>) = [''AAPL'', ''GOOGL'', ''MSFT''] \<and>
   requestedSymbols (req\<lparr>symbolsParam := Some []\<rparr>) = [[]] \<and>
   length (requests (snd (GET req w))) =
     length (requests w) + (if hasKey w then length (requestedSymbols req) else 0)"
proof -
  have "requestedSymbols req \<noteq> []"
    by (simp add: requestedSymbols_def split_nonempty split: option.splits)
  then show ?thesis
    using portfolio_world [of w "requestedSymbols req"]
      portfolio_symbols [of "requestedSymbols req" w]
    by (simp add: GET_parts requestedSymbols_def)
qed

text \<open>
  Claim C8 as stated fails: a request without a symbol list and with a lookback of -5
  hours is answered with status 200, after three news requests and three predictions.
\<close>

theorem malformed_request_counterexample:
  "symbolsParam malformed = None \<and>
   requestedHours malformed = Fin (- 5) \<and>
   status (fst (GET malformed calmWorld)) = 200 \<and>
   map entrySymbol (predictions (body (fst (GET malformed calmWorld)))) =
     [''AAPL'', ''GOOGL'', ''MSFT''] \<and>
   map entryError (predictions (body (fst (GET malformed calmWorld)))) =
     [None, None, None] \<and>
   requests (snd (GET malformed calmWorld)) = [Fin 24, Fin 24, Fin 24]"
proof -
  have missing: "symbolsParam malformed = None"
    by (simp add: malformed_def)
  show ?thesis
    using missing portfolio_world [of calmWorld "requestedSymbols malformed"]
      portfolio_entries [of "requestedSymbols malformed" calmWorld]
      portfolio_symbols [of "requestedSymbols malformed" calmWorld]
    by (simp add: GET_parts sample_hours sample_symbols sample_worlds sample_outcomes
        numeral_3_eq_3)
qed

end
